theory Spec2Isabelle
  imports Main
begin

section \<open>Python strings\<close>

text \<open>
  The program is a Python script (two variants of it, one after the other in the same
  file: lines 1-1124 and lines 1127-2594). A Python \<open>str\<close> is modelled as a \<open>string\<close>,
  one \<open>char\<close> for each character, for characters with code below 256. \<open>py_isspace\<close> and
  \<open>py_isdigit\<close> are \<open>str.isspace\<close> and the regular expression class \<open>\d\<close> on these
  characters. The case mapping is not defined here: it belongs to the Python library
  and is a parameter (next section).
\<close>

definition py_isspace :: "char \<Rightarrow> bool" where
  "py_isspace c \<longleftrightarrow>
     c \<in> set [CHR 0x09, CHR 0x0A, CHR 0x0B, CHR 0x0C, CHR 0x0D, CHR 0x1C, CHR 0x1D,
              CHR 0x1E, CHR 0x1F, CHR 0x20, CHR 0x85, CHR 0xA0]"

definition py_isdigit :: "char \<Rightarrow> bool" where
  "py_isdigit c \<longleftrightarrow> c \<in> set ''0123456789''"

text \<open>\<open>s.strip()\<close> and \<open>s.strip(chars)\<close>.\<close>

definition strip :: "string \<Rightarrow> string" where
  "strip s = rev (dropWhile py_isspace (rev (dropWhile py_isspace s)))"

definition strip_chars :: "string \<Rightarrow> string \<Rightarrow> string" where
  "strip_chars chars s =
     rev (dropWhile (\<lambda>c. c \<in> set chars) (rev (dropWhile (\<lambda>c. c \<in> set chars) s)))"

definition startswith :: "string \<Rightarrow> string \<Rightarrow> bool" where
  "startswith s p \<longleftrightarrow> take (length p) s = p"

definition endswith :: "string \<Rightarrow> string \<Rightarrow> bool" where
  "endswith s p \<longleftrightarrow> length p \<le> length s \<and> drop (length s - length p) s = p"

text \<open>\<open>sub in s\<close> for strings.\<close>

fun contains :: "string \<Rightarrow> string \<Rightarrow> bool" where
  "contains sub [] \<longleftrightarrow> sub = []"
| "contains sub (c # cs) \<longleftrightarrow> startswith (c # cs) sub \<or> contains sub cs"

text \<open>
  \<open>sep.join(parts)\<close>, \<open>s.split(sep)\<close> and \<open>s.replace(old, new)\<close>. The separators and
  patterns of the program are non-empty literals; Python raises \<open>ValueError\<close> on an
  empty separator, a case that does not arise here.
\<close>

fun join :: "string \<Rightarrow> string list \<Rightarrow> string" where
  "join sep [] = []"
| "join sep [x] = x"
| "join sep (x # y # ys) = x @ sep @ join sep (y # ys)"

fun split_acc :: "string \<Rightarrow> string \<Rightarrow> string \<Rightarrow> string list" where
  "split_acc sep acc [] = [rev acc]"
| "split_acc sep acc (c # cs) =
     (if startswith (c # cs) sep then rev acc # split_acc sep [] (drop (length sep - 1) cs)
      else split_acc sep (c # acc) cs)"

definition split :: "string \<Rightarrow> string \<Rightarrow> string list" where
  "split s sep = split_acc sep [] s"

fun replace :: "string \<Rightarrow> string \<Rightarrow> string \<Rightarrow> string" where
  "replace old new [] = []"
| "replace old new (c # cs) =
     (if startswith (c # cs) old then new @ replace old new (drop (length old - 1) cs)
      else c # replace old new cs)"

text \<open>
  \<open>re.findall(r'#(\d+)', s)\<close>: the matches are found from left to right and do not
  overlap; each yields its group, the longest run of digits after the \<open>#\<close>.
\<close>

function findall_issue :: "string \<Rightarrow> string list" where
  "findall_issue [] = []"
| "findall_issue (c # cs) =
     (if c = CHR ''#'' \<and> takeWhile py_isdigit cs \<noteq> []
      then takeWhile py_isdigit cs # findall_issue (dropWhile py_isdigit cs)
      else findall_issue cs)"
  by pat_completeness auto
termination
  by (relation "measure length") (auto simp: length_dropWhile_le less_Suc_eq_le)


section \<open>Values, exceptions and the Python library\<close>

text \<open>The exceptions of the program are values.\<close>

datatype exn =
  ConnectionError | Timeout | HTTPError nat | JSONDecodeError | KeyError string
  | IndexError | TypeError | AttributeError | ValueError | RecursionError | EOFError

text \<open>
  The values that \<open>json.loads\<close> builds: \<open>None\<close>, booleans, integers, floats, strings,
  lists and dictionaries. A float is given by its \<open>repr\<close>, so that the two zeros are
  \<open>0.0\<close> and \<open>-0.0\<close>. A dictionary is an association list with distinct keys, in
  insertion order. \<open>truthy v\<close> is \<open>bool(v)\<close>.
\<close>

datatype json =
  JNull | JBool bool | JInt int | JFloat string | JStr string | JList "json list"
  | JDict "(string \<times> json) list"

type_synonym commit_data = "(string \<times> json) list"

fun truthy :: "json \<Rightarrow> bool" where
  "truthy JNull \<longleftrightarrow> False"
| "truthy (JBool b) \<longleftrightarrow> b"
| "truthy (JInt i) \<longleftrightarrow> i \<noteq> 0"
| "truthy (JFloat r) \<longleftrightarrow> r \<noteq> ''0.0'' \<and> r \<noteq> ''-0.0''"
| "truthy (JStr s) \<longleftrightarrow> s \<noteq> []"
| "truthy (JList xs) \<longleftrightarrow> xs \<noteq> []"
| "truthy (JDict kvs) \<longleftrightarrow> kvs \<noteq> []"

text \<open>
  The functions of the Python library that the program calls and that are not written
  out here are parameters of everything below:
  \<^item> \<open>str_upper c\<close> is \<open>c.upper()\<close> for a string \<open>c\<close> of one character; the result may
    have more than one character (the upper case of the German sharp s is \<open>SS\<close>). The
    strings of the model hold characters below 256, so this is \<open>str.upper\<close> on the
    characters whose upper case stays below 256, which are all of them but the micro
    sign and the y with diaeresis;
  \<^item> \<open>str_isupper c\<close> is \<open>c.isupper()\<close> for a string of one character;
  \<^item> \<open>str_of v\<close> is \<open>str(v)\<close>, the text that \<open>print\<close> and an f-string write for a
    value \<open>v\<close> that is not a string;
  \<^item> \<open>json_loads s\<close> is \<open>json.loads(s)\<close> on a text that starts with \<open>{\<close> and ends
    with \<open>}\<close>: a dictionary, or the exception raised (\<open>json.JSONDecodeError\<close>, or
    another one, as \<open>ValueError\<close> on an integer literal that is too long and
    \<open>RecursionError\<close> on deep nesting);
  \<^item> \<open>textwrap_fill width subsequent_indent text\<close> is \<open>textwrap.fill\<close>.

  Nothing is assumed of these functions; a theorem that needs a property of one of
  them states it as a hypothesis.
\<close>

record library =
  str_upper :: "char \<Rightarrow> string"
  str_isupper :: "char \<Rightarrow> bool"
  str_of :: "json \<Rightarrow> string"
  json_loads :: "string \<Rightarrow> exn + commit_data"
  textwrap_fill :: "nat \<Rightarrow> string \<Rightarrow> string \<Rightarrow> string"

text \<open>\<open>s.upper()\<close> on a whole string maps each character in turn.\<close>

definition upper :: "library \<Rightarrow> string \<Rightarrow> string" where
  "upper lib s = concat (map (str_upper lib) s)"

text \<open>\<open>str(v)\<close> for any value, which is also what \<open>f"{v}"\<close> writes.\<close>

definition to_str :: "library \<Rightarrow> json \<Rightarrow> string" where
  "to_str lib v = (case v of JStr s \<Rightarrow> s | _ \<Rightarrow> str_of lib v)"

text \<open>
  \<open>x += s\<close> for a string \<open>s\<close>: a string is extended, a list receives the characters of
  \<open>s\<close> one by one (in place: every name of the list sees them), any other value raises
  \<open>TypeError\<close>. \<open>s + v\<close> for a string \<open>s\<close> raises \<open>TypeError\<close> unless \<open>v\<close> is a string.
\<close>

definition iadd :: "json \<Rightarrow> string \<Rightarrow> exn + json" where
  "iadd x s =
     (case x of
        JStr t \<Rightarrow> Inr (JStr (t @ s))
      | JList xs \<Rightarrow> Inr (JList (xs @ map (\<lambda>c. JStr [c]) s))
      | _ \<Rightarrow> Inl TypeError)"

definition concat_str :: "string \<Rightarrow> json \<Rightarrow> exn + string" where
  "concat_str s v = (case v of JStr t \<Rightarrow> Inr (s @ t) | _ \<Rightarrow> Inl TypeError)"

section \<open>The message formatter, first variant\<close>

text \<open>\<open>COMMIT_FORMAT_CONFIG["format_rules"]\<close>, lines 11-32.\<close>

definition subject_max_length :: nat where "subject_max_length = 50"
definition subject_capitalize :: bool where "subject_capitalize = True"
definition subject_no_period :: bool where "subject_no_period = True"
definition body_wrap_length :: nat where "body_wrap_length = 72"
definition breaking_changes_prefix :: string where "breaking_changes_prefix = ''BREAKING CHANGE: ''"
definition footer_issue_references :: string where
  "footer_issue_references = ''Soluciona: #{issue}''"

text \<open>
  \<open>format_commit_message\<close>, lines 479-573, section by section, on arguments that are
  strings. The function returns a string on every input: it raises nothing and prints
  nothing.
\<close>

definition format_subject_v1 :: "library \<Rightarrow> string \<Rightarrow> string" where
  "format_subject_v1 lib subject =
     (let subject = (if subject \<noteq> [] \<and> subject_capitalize
                     then (if length subject > 0 then str_upper lib (hd subject) @ tl subject
                           else subject)
                     else subject);
          subject = (if subject \<noteq> [] \<and> subject_no_period \<and> endswith subject ''.''
                     then butlast subject else subject)
      in if length subject > subject_max_length then take subject_max_length subject
         else subject)"

definition format_header_v1 :: "library \<Rightarrow> string \<Rightarrow> string \<Rightarrow> string \<Rightarrow> string" where
  "format_header_v1 lib commit_type scope subject =
     (if scope \<noteq> [] then commit_type @ ''('' @ scope @ ''): '' @ format_subject_v1 lib subject
      else commit_type @ '': '' @ format_subject_v1 lib subject)"

definition is_bullet :: "string \<Rightarrow> bool" where
  "is_bullet s \<longleftrightarrow> startswith (strip s) ''-'' \<or> startswith (strip s) ''*''"

definition wrap_line_v1 :: "library \<Rightarrow> string \<Rightarrow> string" where
  "wrap_line_v1 lib line =
     (if is_bullet line then
        (let indent = replicate 2 CHR '' '';
             bullet = [hd (strip line), CHR '' ''];
             text = strip (drop 2 (strip line))
         in bullet @ textwrap_fill lib (body_wrap_length - length bullet - length indent)
                          (indent @ replicate (length bullet) CHR '' '') text)
      else textwrap_fill lib body_wrap_length [] line)"

definition format_body_v1 :: "library \<Rightarrow> string \<Rightarrow> string" where
  "format_body_v1 lib body =
     (if body \<noteq> [] then
        join ''\<newline>\<newline>''
          (map (\<lambda>paragraph.
                  if is_bullet paragraph
                  then join ''\<newline>'' (map (wrap_line_v1 lib) (split paragraph ''\<newline>''))
                  else textwrap_fill lib body_wrap_length [] paragraph)
               (split body ''\<newline>\<newline>''))
      else [])"

definition format_breaking_v1 :: "string \<Rightarrow> string" where
  "format_breaking_v1 breaking =
     (if breaking \<noteq> [] \<and> \<not> startswith breaking breaking_changes_prefix
      then breaking_changes_prefix @ breaking else breaking)"

definition format_footer_v1 :: "string \<Rightarrow> string" where
  "format_footer_v1 footer =
     (if footer \<noteq> [] \<and> contains ''#'' footer \<and> \<not> contains ''Soluciona'' footer
         \<and> \<not> contains ''Closes'' footer
      then (let issue_refs = findall_issue footer
            in if issue_refs \<noteq> []
               then join ''\<newline>''
                      (map (\<lambda>ref. replace ''{issue}'' ref footer_issue_references) issue_refs)
               else footer)
      else footer)"

definition format_commit_message_v1 ::
  "library \<Rightarrow> string \<Rightarrow> string \<Rightarrow> string \<Rightarrow> string \<Rightarrow> string \<Rightarrow> string \<Rightarrow> string" where
  "format_commit_message_v1 lib commit_type scope subject body breaking footer =
     (let header = format_header_v1 lib commit_type scope subject;
          formatted_body = format_body_v1 lib body;
          formatted_breaking = format_breaking_v1 breaking;
          formatted_footer = format_footer_v1 footer;
          message_parts = [header];
          message_parts = (if formatted_body \<noteq> [] then message_parts @ [[], formatted_body]
                           else message_parts);
          message_parts = (if formatted_breaking \<noteq> []
                           then (if formatted_body = [] then message_parts @ [[]]
                                 else message_parts) @ [formatted_breaking]
                           else message_parts);
          message_parts = (if formatted_footer \<noteq> []
                           then (if formatted_body = [] \<and> formatted_breaking = []
                                 then message_parts @ [[]] else message_parts)
                                @ [formatted_footer]
                           else message_parts)
      in join ''\<newline>'' message_parts)"

section \<open>The message formatter, second variant\<close>

text \<open>
  \<open>format_commit_message\<close>, lines 1475-1530. Here \<open>scope\<close> arrives with its parentheses
  (\<open>get_commit_scope\<close>, line 1451, returns \<open>(scope)\<close>), the subject has no length limit
  and the body's paragraphs are split and joined again unchanged.
\<close>

definition format_subject_v2 :: "library \<Rightarrow> string \<Rightarrow> string" where
  "format_subject_v2 lib subject =
     (let subject = strip subject;
          subject = (if subject \<noteq> [] \<and> \<not> str_isupper lib (hd subject)
                     then str_upper lib (hd subject) @ tl subject else subject)
      in if subject \<noteq> [] \<and> endswith subject ''.'' then butlast subject else subject)"

definition format_commit_message_v2 ::
  "library \<Rightarrow> string \<Rightarrow> string \<Rightarrow> string \<Rightarrow> string \<Rightarrow> string \<Rightarrow> string \<Rightarrow> string" where
  "format_commit_message_v2 lib commit_type scope subject body breaking footer =
     (let header = commit_type @ scope @ '': '' @ format_subject_v2 lib subject;
          message_parts = [header];
          message_parts = (if body \<noteq> []
                           then message_parts @ [[]]
                                @ [join ''\<newline>\<newline>'' (split body ''\<newline>\<newline>'')]
                           else message_parts);
          message_parts = (if breaking \<noteq> []
                           then (if body = [] then message_parts @ [[]] else message_parts)
                                @ [''BREAKING CHANGE: '' @ breaking]
                           else message_parts);
          message_parts = (if footer \<noteq> []
                           then (if body = [] \<and> breaking = [] then message_parts @ [[]]
                                 else message_parts)
                                @ [if \<not> startswith footer ''Soluciona:''
                                      \<and> \<not> startswith footer ''Closes:''
                                   then ''Soluciona: '' @ footer else footer]
                           else message_parts)
      in join ''\<newline>'' message_parts)"

section \<open>The remote generator\<close>

text \<open>
  The remote service is outside the program:
  \<open>replies\<close> gives the outcome of each POST in turn, and \<open>posts\<close> counts the requests
  sent so far. An outcome is either an exception raised between \<open>requests.post\<close> and
  the extraction of the reply's text (\<open>raise_for_status\<close>, \<open>response.json()\<close>, the
  subscripts), or that text. The prompt sent with the request does not decide any result
  below and is left out, as is the line printed when an exception is caught.
\<close>

datatype post_outcome = Raised exn | Content string

record net =
  replies :: "nat \<Rightarrow> post_outcome"
  posts :: nat

definition post :: "net \<Rightarrow> post_outcome \<times> net" where
  "post n = (replies n (posts n), n\<lparr>posts := Suc (posts n)\<rparr>)"

text \<open>First variant, lines 316-426: the reply is a plain string.\<close>

definition generate_commit_message_v1 ::
  "net \<Rightarrow> string \<Rightarrow> string \<Rightarrow> string \<Rightarrow> string \<Rightarrow> string \<Rightarrow> string \<times> net" where
  "generate_commit_message_v1 n api_key diff commit_type scope lang =
     (if diff = [] then
        (if lang = ''en'' then ''No changes to commit'' else ''No hay cambios para hacer commit'', n)
      else (case post n of
              (Raised e, n') \<Rightarrow> ([], n')
            | (Content c, n') \<Rightarrow> (strip c, n')))"

text \<open>
  Second variant, lines 1238-1426: the reply is parsed into a dictionary. The members
  that \<open>json.loads\<close> delivers are values of any kind; the fields that the program fills
  in itself are strings.
\<close>

definition dict_set :: "commit_data \<Rightarrow> string \<Rightarrow> json \<Rightarrow> commit_data" where
  "dict_set d k v =
     (if map_of d k = None then d @ [(k, v)]
      else map (\<lambda>(k', v'). if k' = k then (k', v) else (k', v')) d)"

definition setdefault :: "commit_data \<Rightarrow> string \<Rightarrow> json \<Rightarrow> commit_data" where
  "setdefault d k v = (if map_of d k = None then d @ [(k, v)] else d)"

text \<open>\<open>d.get(k)\<close>: the value, or \<open>None\<close> for a missing key.\<close>

definition get :: "commit_data \<Rightarrow> string \<Rightarrow> json" where
  "get d k = (case map_of d k of None \<Rightarrow> JNull | Some v \<Rightarrow> v)"

text \<open>\<open>d[k]\<close>.\<close>

definition getitem :: "commit_data \<Rightarrow> string \<Rightarrow> exn + json" where
  "getitem d k = (case map_of d k of None \<Rightarrow> Inl (KeyError k) | Some v \<Rightarrow> Inr v)"

text \<open>The dictionary literal of six fields, lines 1408-1415, 1419-1426 and 1928-1935.\<close>

definition make_commit_data ::
  "json \<Rightarrow> json \<Rightarrow> json \<Rightarrow> json \<Rightarrow> json \<Rightarrow> json \<Rightarrow> commit_data" where
  "make_commit_data commit_type scope subject body breaking footer =
     [(''type'', commit_type), (''scope'', scope), (''subject'', subject), (''body'', body),
      (''breaking'', breaking), (''footer'', footer)]"

text \<open>\<open>s.find(c)\<close>, \<open>s.rfind(c)\<close>, \<open>s[a:b]\<close> for indices that are not negative, and
  \<open>s.split(sep, 1)\<close>.\<close>

definition find_char :: "char \<Rightarrow> string \<Rightarrow> int" where
  "find_char c s = (if c \<in> set s then int (length (takeWhile (\<lambda>x. x \<noteq> c) s)) else - 1)"

definition rfind_char :: "char \<Rightarrow> string \<Rightarrow> int" where
  "rfind_char c s =
     (if c \<in> set s then int (length s) - 1 - int (length (takeWhile (\<lambda>x. x \<noteq> c) (rev s)))
      else - 1)"

definition slice :: "'a list \<Rightarrow> int \<Rightarrow> int \<Rightarrow> 'a list" where
  "slice s a b = take (nat b - nat a) (drop (nat a) s)"

fun split_once_acc :: "string \<Rightarrow> string \<Rightarrow> string \<Rightarrow> string list" where
  "split_once_acc sep acc [] = [rev acc]"
| "split_once_acc sep acc (c # cs) =
     (if startswith (c # cs) sep then [rev acc, drop (length sep - 1) cs]
      else split_once_acc sep (c # acc) cs)"

definition split_once :: "string \<Rightarrow> string \<Rightarrow> string list" where
  "split_once s sep = split_once_acc sep [] s"

text \<open>The fallback of lines 1354-1415, for a reply that is not JSON.\<close>

fun footer_scan :: "nat \<Rightarrow> string list \<Rightarrow> nat option" where
  "footer_scan i (l # l' # ls) =
     (if strip l = [] \<and> strip l' \<noteq> [] then Some (i + 1) else footer_scan (i + 1) (l' # ls))"
| "footer_scan i ls = None"

definition fallback_header :: "string \<Rightarrow> string \<times> string \<times> string" where
  "fallback_header header =
     (if contains '':'' header then
        (let header_parts = split_once header '':'';
             type_scope = strip (header_parts ! 0);
             subject = (if length header_parts > 1 then strip (header_parts ! 1) else [])
         in if contains ''('' type_scope \<and> contains '')'' type_scope
            then (strip (split_once type_scope ''('' ! 0),
                  strip (split_once (split_once type_scope ''('' ! 1) '')'' ! 0),
                  subject)
            else (type_scope, [], subject))
      else ([], [], []))"

definition fallback_rest :: "string list \<Rightarrow> string \<times> string \<times> string" where
  "fallback_rest lines =
     (if length lines > 1 then
        (let body_start = 1 + length (takeWhile (\<lambda>l. strip l = []) (tl lines));
             footer_start = (case footer_scan body_start (drop body_start lines) of
                               Some k \<Rightarrow> k | None \<Rightarrow> length lines);
             body = (if body_start < footer_start
                     then strip (join ''\<newline>''
                            (take (footer_start - body_start) (drop body_start lines)))
                     else [])
         in if footer_start < length lines then
              (let footer_text = strip (join ''\<newline>'' (drop footer_start lines))
               in if contains ''BREAKING CHANGE:'' footer_text
                  then (let breaking_parts = split_once footer_text ''BREAKING CHANGE:''
                        in (body,
                            (if length breaking_parts > 1 then strip (breaking_parts ! 1) else []),
                            strip (breaking_parts ! 0)))
                  else (body, [], footer_text))
            else (body, [], []))
      else ([], [], []))"


definition fallback_parse :: "string \<Rightarrow> commit_data" where
  "fallback_parse ai_response =
     (let lines = split ai_response ''\<newline>'';
          header = (if lines \<noteq> [] then hd lines else []);
          (commit_type, scope, subject) = fallback_header header;
          (body, breaking, footer) = fallback_rest lines
      in make_commit_data (JStr commit_type) (JStr scope) (JStr subject) (JStr body)
           (JStr breaking) (JStr footer))"

text \<open>
  Lines 1329-1415, after the reply's text has been extracted: the result returned, or
  the exception that leaves the inner \<open>try\<close>, which catches \<open>json.JSONDecodeError\<close>
  alone.
\<close>

definition parse_response :: "library \<Rightarrow> string \<Rightarrow> exn + commit_data" where
  "parse_response lib content =
     (let ai_response = strip (strip_chars [CHR 0x22, CHR 0x27] content);
          json_start = find_char CHR ''{'' ai_response;
          json_end = rfind_char CHR ''}'' ai_response
      in if json_start \<ge> 0 \<and> json_end \<ge> 0 then
           (case json_loads lib (slice ai_response json_start (json_end + 1)) of
              Inr commit_data \<Rightarrow>
                Inr (foldl (\<lambda>d k. setdefault d k (JStr [])) commit_data
                       [''type'', ''scope'', ''subject'', ''body'', ''breaking'', ''footer''])
            | Inl JSONDecodeError \<Rightarrow> Inr (fallback_parse ai_response)
            | Inl e \<Rightarrow> Inl e)
         else Inr (fallback_parse ai_response))"

text \<open>
  \<open>generate_commit_message\<close>: every exception raised after the POST is caught by the
  outer handler, lines 1417-1426, which returns six empty fields.
\<close>

definition generate_commit_message_v2 ::
  "library \<Rightarrow> net \<Rightarrow> string \<Rightarrow> string \<Rightarrow> string \<Rightarrow> commit_data \<times> net" where
  "generate_commit_message_v2 lib n api_key diff lang =
     (if diff = [] then
        (make_commit_data (JStr []) (JStr [])
           (JStr (if lang = ''es'' then ''No changes to commit''
                  else ''No hay cambios para hacer commit''))
           (JStr []) (JStr []) (JStr []), n)
      else (case post n of
              (Raised e, n') \<Rightarrow>
                (make_commit_data (JStr []) (JStr []) (JStr []) (JStr []) (JStr []) (JStr []), n')
            | (Content c, n') \<Rightarrow>
                (case parse_response lib c of
                   Inl e \<Rightarrow>
                     (make_commit_data (JStr []) (JStr []) (JStr []) (JStr []) (JStr [])
                        (JStr []), n')
                 | Inr commit_data \<Rightarrow> (commit_data, n'))))"

text \<open>
  A reader of flat JSON objects, to run the parser on a concrete reply: an object whose
  members are string literals with the escapes of one character, or \<open>null\<close>, \<open>true\<close>
  or \<open>false\<close>. On such a text it returns what \<open>json.loads\<close> returns; every other text
  it refuses.
\<close>

definition json_ws :: "char \<Rightarrow> bool" where
  "json_ws c \<longleftrightarrow> c \<in> set [CHR 0x20, CHR 0x09, CHR 0x0A, CHR 0x0D]"

definition json_unescape :: "char \<Rightarrow> char option" where
  "json_unescape c =
     map_of [(CHR 0x22, CHR 0x22), (CHR 0x5C, CHR 0x5C), (CHR ''/'', CHR ''/''),
             (CHR ''b'', CHR 0x08), (CHR ''f'', CHR 0x0C), (CHR ''n'', CHR 0x0A),
             (CHR ''r'', CHR 0x0D), (CHR ''t'', CHR 0x09)] c"

fun json_string_body :: "string \<Rightarrow> string \<Rightarrow> (string \<times> string) option" where
  "json_string_body acc [] = None"
| "json_string_body acc [c] = (if c = CHR 0x22 then Some (rev acc, []) else None)"
| "json_string_body acc (c # e # cs) =
     (if c = CHR 0x22 then Some (rev acc, e # cs)
      else if c = CHR 0x5C then
        (case json_unescape e of None \<Rightarrow> None | Some u \<Rightarrow> json_string_body (u # acc) cs)
      else if of_char c < (32 :: nat) then None
      else json_string_body (c # acc) (e # cs))"

definition json_string :: "string \<Rightarrow> (string \<times> string) option" where
  "json_string s =
     (case dropWhile json_ws s of
        c # cs \<Rightarrow> if c = CHR 0x22 then json_string_body [] cs else None
      | [] \<Rightarrow> None)"

definition json_value :: "string \<Rightarrow> (json \<times> string) option" where
  "json_value s =
     (let t = dropWhile json_ws s
      in if startswith t ''null'' then Some (JNull, drop 4 t)
         else if startswith t ''true'' then Some (JBool True, drop 4 t)
         else if startswith t ''false'' then Some (JBool False, drop 5 t)
         else (case json_string t of None \<Rightarrow> None | Some (v, rest) \<Rightarrow> Some (JStr v, rest)))"

definition json_member :: "string \<Rightarrow> ((string \<times> json) \<times> string) option" where
  "json_member s =
     (case json_string s of
        None \<Rightarrow> None
      | Some (k, s1) \<Rightarrow>
          (case dropWhile json_ws s1 of
             c # s2 \<Rightarrow>
               if c = CHR '':'' then
                 (case json_value s2 of None \<Rightarrow> None | Some (v, s3) \<Rightarrow> Some ((k, v), s3))
               else None
           | [] \<Rightarrow> None))"

fun json_members :: "nat \<Rightarrow> commit_data \<Rightarrow> string \<Rightarrow> commit_data option" where
  "json_members 0 d s = None"
| "json_members (Suc fuel) d s =
     (case json_member s of
        None \<Rightarrow> None
      | Some ((k, v), s1) \<Rightarrow>
          (case dropWhile json_ws s1 of
             c # s2 \<Rightarrow>
               if c = CHR '','' then json_members fuel (dict_set d k v) s2
               else if c = CHR ''}'' \<and> dropWhile json_ws s2 = [] then Some (dict_set d k v)
               else None
           | [] \<Rightarrow> None))"

definition json_loads_flat :: "string \<Rightarrow> exn + commit_data" where
  "json_loads_flat s =
     (case (case dropWhile json_ws s of
              c # s1 \<Rightarrow>
                if c = CHR ''{'' then
                  (case dropWhile json_ws s1 of
                     c' # s2 \<Rightarrow>
                       if c' = CHR ''}'' \<and> dropWhile json_ws s2 = [] then Some []
                       else json_members (length s) [] s1
                   | [] \<Rightarrow> None)
                else None
            | [] \<Rightarrow> None) of
        None \<Rightarrow> Inl JSONDecodeError
      | Some d \<Rightarrow> Inr d)"

section \<open>Effects, and the \<open>stage\<close> subcommand\<close>

text \<open>
  What a run does to the outside is a list of events, in order: a subprocess started
  with its argument list, a text printed that depends on the data, and the fixed texts
  of the user interface, named rather than spelled out (they exist in two languages and
  decide nothing).
\<close>

datatype notice =
  Generating | FailedToGenerate | Options | OptionsNav bool bool | CommitCreated
  | ErrorCreatingCommit | GitError | Regenerating | FailedToRegenerate | EnterMessage
  | Editing | CommitCancelled | InvalidOption | NoChanges | AllStaged | Staged nat
  | NoFilesSpecified | CommandsExecuted

datatype event = Run "string list" | Print string | Notice notice

text \<open>\<open>stage_changes\<close>, lines 2145-2167; \<open>files\<close> is \<open>None\<close> by default.\<close>

definition stage_changes :: "string list option \<Rightarrow> bool \<Rightarrow> event list" where
  "stage_changes files all_files =
     (if all_files then
        [Run [''git'', ''add'', ''.''], Notice AllStaged, Notice CommandsExecuted,
         Print ''$ git add .'']
      else (case files of
              Some (f # fs) \<Rightarrow>
                map (\<lambda>file. Run [''git'', ''add'', file]) (f # fs)
                @ [Notice (Staged (length (f # fs))), Notice CommandsExecuted]
                @ map (\<lambda>file. Print (''$ git add '' @ file)) (f # fs)
            | _ \<Rightarrow> [Notice NoFilesSpecified]))"

text \<open>
  The \<open>stage\<close> branch of \<open>main\<close>, lines 2541-2545, on the arguments that \<open>argparse\<close>
  delivers for \<open>stage [files...] [--all]\<close>: \<open>files\<close> is the list of the positional
  arguments, empty when there is none.
\<close>

record stage_args =
  files :: "string list"
  all :: bool

definition main_stage :: "stage_args \<Rightarrow> event list" where
  "main_stage args =
     (if all args \<or> files args = [] then stage_changes None True
      else if files args \<noteq> [] then stage_changes (Some (files args)) False
      else [])"


section \<open>The review loop\<close>

text \<open>
  The loops read the standard input line by line; \<open>input()\<close> on an exhausted input
  raises \<open>EOFError\<close>, which nothing in the program catches. Each iteration reads at
  least one line, so a run over a finite input ends. \<open>git_ok\<close> tells whether
  \<open>git commit -m message\<close> exits with status 0. \<open>subprocess.run\<close> starts no process
  when an argument is not a string (it raises \<open>TypeError\<close>) or holds the character
  NUL (it raises \<open>ValueError\<close>).
\<close>

datatype outcome =
  Committed | CommitFailed | CommitNotStarted | Cancelled | GenerationFailed
  | NothingToCommit | Crashed exn

datatype 'a flow = Continue 'a | Break outcome

record session =
  api_key :: string
  diff :: string
  commit_type :: string
  scope :: string
  lang :: string
  git_ok :: "string \<Rightarrow> bool"

record ('m, 'd) review =
  formatted_message :: 'm
  message_history :: "'d list"
  current_index :: int

text \<open>The events that start \<open>git commit -m message\<close>.\<close>

definition is_git_commit :: "event \<Rightarrow> bool" where
  "is_git_commit e \<longleftrightarrow>
     (case e of
        Run args \<Rightarrow> length args = 4 \<and> take 3 args = [''git'', ''commit'', ''-m'']
      | _ \<Rightarrow> False)"

subsection \<open>First variant\<close>

text \<open>The lines typed in the edit branch, lines 854-859: \<open>None\<close> is \<open>EOFError\<close>.\<close>

fun read_edit_lines :: "string list \<Rightarrow> string list \<Rightarrow> (string list \<times> string list) option" where
  "read_edit_lines lines [] = None"
| "read_edit_lines lines (line # rest) =
     (if line = [] \<and> (lines = [] \<or> last lines = []) then Some (lines, rest)
      else read_edit_lines (lines @ [line]) rest)"

text \<open>
  One iteration of the \<open>while True\<close> of \<open>create_new_commit\<close>, lines 809-872. The
  message is a string: the generator of this variant returns one, and so does the edit
  branch. In the accept branch \<open>run_git_command\<close> catches the failure of \<open>git\<close>
  (\<open>CalledProcessError\<close>, lines 167-170) and the success is reported all the same; the
  \<open>ValueError\<close> of a message that holds NUL reaches the handler of lines 832-834.
\<close>

definition loop_body_v1 ::
  "library \<Rightarrow> session \<Rightarrow> (string, string) review \<times> net \<Rightarrow> string list
     \<Rightarrow> event list \<times> ((string, string) review \<times> net \<times> string list) flow" where
  "loop_body_v1 lib s st stdin =
     (let r = fst st; n = snd st;
          shown = [Print (formatted_message r), Notice Options]
      in case stdin of
           [] \<Rightarrow> (shown, Break (Crashed EOFError))
         | line # rest \<Rightarrow>
             (let choice = upper lib (strip line) in
              if choice = ''A'' then
                (if CHR 0x00 \<in> set (formatted_message r)
                 then (shown @ [Notice ErrorCreatingCommit], Break CommitNotStarted)
                 else
                   (shown @ [Run [''git'', ''commit'', ''-m'', formatted_message r]]
                      @ (if git_ok s (formatted_message r) then [] else [Notice GitError])
                      @ [Notice CommitCreated],
                    Break (if git_ok s (formatted_message r) then Committed else CommitFailed)))
              else if choice = ''R'' then
                (let (new_message, n') =
                       generate_commit_message_v1 n (api_key s) (diff s) (commit_type s)
                         (scope s) (lang s)
                 in if new_message \<noteq> [] then
                      (shown @ [Notice Regenerating],
                       Continue (r\<lparr>formatted_message := new_message,
                                   message_history := message_history r @ [new_message],
                                   current_index := int (length (message_history r @ [new_message])) - 1\<rparr>,
                                 n', rest))
                    else (shown @ [Notice Regenerating, Notice FailedToRegenerate],
                          Continue (r, n', rest)))
              else if choice = ''E'' then
                (case read_edit_lines [] rest of
                   None \<Rightarrow>
                     (shown @ [Print (formatted_message r), Notice EnterMessage],
                      Break (Crashed EOFError))
                 | Some (lines, rest') \<Rightarrow>
                     (shown @ [Print (formatted_message r), Notice EnterMessage],
                      Continue (r\<lparr>formatted_message := join ''\<newline>'' lines,
                                  message_history := message_history r @ [join ''\<newline>'' lines],
                                  current_index :=
                                    int (length (message_history r @ [join ''\<newline>'' lines])) - 1\<rparr>,
                                n, rest')))
              else if choice = ''C'' then (shown @ [Notice CommitCancelled], Break Cancelled)
              else (shown @ [Notice InvalidOption], Continue (r, n, rest))))"

text \<open>The loop: an iteration that continues has read at least one line.\<close>

lemma read_edit_lines_shorter:
  "read_edit_lines lines inp = Some (ls, rest) \<Longrightarrow> length rest < length inp"
  by (induction lines inp rule: read_edit_lines.induct) (auto split: if_splits)

lemma loop_body_v1_shorter:
  assumes "loop_body_v1 lib s st stdin = (ev, Continue (r', n', rest))"
  shows "length rest < length stdin"
proof (cases stdin)
  case Nil
  with assms show ?thesis by (simp add: loop_body_v1_def Let_def)
next
  case (Cons line more)
  with assms show ?thesis
    by (auto simp: loop_body_v1_def Let_def split: if_splits prod.splits option.splits
        dest: read_edit_lines_shorter)
qed

function create_loop_v1 ::
  "library \<Rightarrow> session \<Rightarrow> (string, string) review \<times> net \<Rightarrow> string list
     \<Rightarrow> event list \<times> outcome" where
  "create_loop_v1 lib s st stdin =
     (case loop_body_v1 lib s st stdin of
        (ev, Break out) \<Rightarrow> (ev, out)
      | (ev, Continue (r', n', rest)) \<Rightarrow>
          (case create_loop_v1 lib s (r', n') rest of (ev', out) \<Rightarrow> (ev @ ev', out)))"
  by pat_completeness auto
termination
  by (relation "measure (\<lambda>(lib, s, st, stdin). length stdin)")
     (auto dest: loop_body_v1_shorter [OF sym])

declare create_loop_v1.simps [simp del]

subsection \<open>Second variant\<close>

text \<open>
  The header, lines 1840-1843. The subscripts raise \<open>KeyError\<close> on a missing key, and
  \<open>+=\<close> raises \<open>TypeError\<close> when the type of the commit is neither a string nor a list.
\<close>

definition header_of :: "library \<Rightarrow> commit_data \<Rightarrow> exn + json" where
  "header_of lib current_data =
     (case getitem current_data ''type'' of Inl e \<Rightarrow> Inl e | Inr header \<Rightarrow>
      case getitem current_data ''scope'' of Inl e \<Rightarrow> Inl e | Inr scope' \<Rightarrow>
      case (if truthy scope' then iadd header (''('' @ to_str lib scope' @ '')'') else Inr header) of
        Inl e \<Rightarrow> Inl e | Inr header \<Rightarrow>
      case getitem current_data ''subject'' of Inl e \<Rightarrow> Inl e | Inr subject \<Rightarrow>
      iadd header ('': '' @ to_str lib subject))"

text \<open>
  The message committed, lines 1863-1869, from the header and the three other fields:
  \<open>"\n\n" + v\<close> raises \<open>TypeError\<close> when \<open>v\<close> is not a string.
\<close>

definition message_of :: "json \<Rightarrow> json \<Rightarrow> json \<Rightarrow> json \<Rightarrow> exn + json" where
  "message_of header body breaking footer =
     (case (if truthy body
            then (case concat_str ''\<newline>\<newline>'' body of Inl e \<Rightarrow> Inl e | Inr t \<Rightarrow> iadd header t)
            else Inr header) of
        Inl e \<Rightarrow> Inl e | Inr message \<Rightarrow>
      case (if truthy breaking
            then (case concat_str ''\<newline>\<newline>BREAKING CHANGE: '' breaking of
                    Inl e \<Rightarrow> Inl e | Inr t \<Rightarrow> iadd message t)
            else Inr message) of
        Inl e \<Rightarrow> Inl e | Inr message \<Rightarrow>
      (if truthy footer
       then (case concat_str ''\<newline>\<newline>'' footer of Inl e \<Rightarrow> Inl e | Inr t \<Rightarrow> iadd message t)
       else Inr message))"

text \<open>
  The message shown and the message committed, lines 1839-1869: the texts printed, in
  order, up to the exception if one is raised, and then the exception, or the value of
  \<open>formatted_message\<close> together with the draft as these lines leave it. They change the
  draft in one case: when its type is a list, \<open>header\<close> and \<open>formatted_message\<close> are
  other names of that list, and \<open>+=\<close> extends it in place.
\<close>

definition assemble ::
  "library \<Rightarrow> commit_data \<Rightarrow> string list \<times> (exn + json \<times> commit_data)" where
  "assemble lib current_data =
     (case header_of lib current_data of
        Inl e \<Rightarrow> ([], Inl e)
      | Inr header \<Rightarrow>
     (let printed = [to_str lib header] in
      case getitem current_data ''body'' of Inl e \<Rightarrow> (printed, Inl e) | Inr body \<Rightarrow>
      case (if truthy body then concat_str ''\<newline>'' body else Inr []) of
        Inl e \<Rightarrow> (printed, Inl e) | Inr body_text \<Rightarrow>
     (let printed = (if truthy body then printed @ [body_text] else printed) in
      case getitem current_data ''breaking'' of Inl e \<Rightarrow> (printed, Inl e) | Inr breaking \<Rightarrow>
      case getitem current_data ''footer'' of Inl e \<Rightarrow> (printed, Inl e) | Inr footer \<Rightarrow>
     (let footer_text = [];
          footer_text = (if truthy breaking
                         then footer_text @ ''\<newline>\<newline>BREAKING CHANGE: '' @ to_str lib breaking
                         else footer_text);
          footer_text = (if truthy footer
                         then footer_text @ ''\<newline>\<newline>'' @ to_str lib footer
                         else footer_text);
          printed = (if footer_text \<noteq> [] then printed @ [footer_text] else printed)
      in case message_of header body breaking footer of
           Inl e \<Rightarrow> (printed, Inl e)
         | Inr message \<Rightarrow>
             (printed,
              Inr (message,
                   case header of
                     JList xs \<Rightarrow> dict_set current_data ''type'' message
                   | _ \<Rightarrow> current_data))))))"

text \<open>
  The first half of an iteration, lines 1810-1878: a new draft is generated and stored,
  and the draft at \<open>current_index\<close> is shown with the menu.
\<close>

definition loop_top_v2 ::
  "library \<Rightarrow> session \<Rightarrow> (json, commit_data) review \<times> net
     \<Rightarrow> event list \<times> ((json, commit_data) review \<times> net) flow" where
  "loop_top_v2 lib s st =
     (let r = fst st; n = snd st;
          (commit_data, n') = generate_commit_message_v2 lib n (api_key s) (diff s) (lang s)
      in if commit_data = [] \<or> \<not> truthy (get commit_data ''subject'') then
           ([Notice Generating, Notice FailedToGenerate], Break GenerationFailed)
         else
           (let r = (if current_index r < 0
                     then r\<lparr>message_history := message_history r @ [commit_data],
                            current_index := 0\<rparr>
                     else (let history =
                                 (if current_index r < int (length (message_history r)) - 1
                                  then take (nat (current_index r + 1)) (message_history r)
                                  else message_history r)
                           in r\<lparr>message_history := history @ [commit_data],
                                current_index := int (length (history @ [commit_data])) - 1\<rparr>));
                current_data = message_history r ! nat (current_index r)
            in case assemble lib current_data of
                 (printed, Inl e) \<Rightarrow> ([Notice Generating] @ map Print printed, Break (Crashed e))
               | (printed, Inr (message, current_data')) \<Rightarrow>
                   ([Notice Generating] @ map Print printed
                      @ [Notice (OptionsNav (current_index r > 0)
                                   (current_index r < int (length (message_history r)) - 1))],
                    Continue (r\<lparr>formatted_message := message,
                                message_history :=
                                  (message_history r)[nat (current_index r) := current_data']\<rparr>,
                              n'))))"

text \<open>
  One field of the edit branch, lines 1911-1925:
  \<open>input(f"... [{current_data[k]}]: ").strip() or current_data[k]\<close>. The prompt is
  built first, then a line is read. For the body, line 1914, the prompt calls
  \<open>replace\<close> on the current value, which raises \<open>AttributeError\<close> unless that is a
  string.
\<close>

definition edit_field :: "commit_data \<Rightarrow> string \<Rightarrow> string list \<Rightarrow> exn + json \<times> string list" where
  "edit_field current_data k stdin =
     (case getitem current_data k of
        Inl e \<Rightarrow> Inl e
      | Inr v \<Rightarrow>
          (case stdin of
             [] \<Rightarrow> Inl EOFError
           | line # rest \<Rightarrow> Inr (if strip line \<noteq> [] then JStr (strip line) else v, rest)))"

definition edit_body :: "commit_data \<Rightarrow> string list \<Rightarrow> exn + json \<times> string list" where
  "edit_body current_data stdin =
     (case getitem current_data ''body'' of
        Inl e \<Rightarrow> Inl e
      | Inr (JStr b) \<Rightarrow>
          (case stdin of
             [] \<Rightarrow> Inl EOFError
           | line # rest \<Rightarrow>
               Inr (if strip line \<noteq> [] then JStr (replace ''|'' ''\<newline>'' (strip line))
                    else JStr b, rest))
      | Inr _ \<Rightarrow> Inl AttributeError)"

definition edit_fields :: "commit_data \<Rightarrow> string list \<Rightarrow> exn + commit_data \<times> string list" where
  "edit_fields current_data stdin =
     (case edit_field current_data ''type'' stdin of Inl e \<Rightarrow> Inl e | Inr (new_type, stdin) \<Rightarrow>
      case edit_field current_data ''scope'' stdin of Inl e \<Rightarrow> Inl e | Inr (new_scope, stdin) \<Rightarrow>
      case edit_field current_data ''subject'' stdin of Inl e \<Rightarrow> Inl e | Inr (new_subject, stdin) \<Rightarrow>
      case edit_body current_data stdin of Inl e \<Rightarrow> Inl e | Inr (new_body, stdin) \<Rightarrow>
      case edit_field current_data ''breaking'' stdin of Inl e \<Rightarrow> Inl e | Inr (new_breaking, stdin) \<Rightarrow>
      case edit_field current_data ''footer'' stdin of Inl e \<Rightarrow> Inl e | Inr (new_footer, stdin) \<Rightarrow>
      Inr (make_commit_data new_type new_scope new_subject new_body new_breaking new_footer,
           stdin))"

text \<open>
  The second half, lines 1880-1949: the choice is read and carried out. The branches
  for the previous and the next draft subscript the draft with \<open>formatted\<close>, a key
  that may be missing.
\<close>

definition loop_choice_v2 ::
  "library \<Rightarrow> session \<Rightarrow> (json, commit_data) review \<times> net \<Rightarrow> string list
     \<Rightarrow> event list \<times> ((json, commit_data) review \<times> net \<times> string list) flow" where
  "loop_choice_v2 lib s st stdin =
     (let r = fst st; n = snd st
      in case stdin of
           [] \<Rightarrow> ([], Break (Crashed EOFError))
         | line # rest \<Rightarrow>
             (let choice = upper lib (strip line) in
              if choice = ''A'' then
                (case formatted_message r of
                   JStr message \<Rightarrow>
                     if CHR 0x00 \<in> set message then ([], Break (Crashed ValueError))
                     else if git_ok s message
                     then ([Run [''git'', ''commit'', ''-m'', message], Notice CommitCreated],
                           Break Committed)
                     else ([Run [''git'', ''commit'', ''-m'', message],
                            Notice ErrorCreatingCommit],
                           Break CommitFailed)
                 | _ \<Rightarrow> ([], Break (Crashed TypeError)))
              else if choice = ''R'' then ([], Continue (r, n, rest))
              else if choice = ''P'' \<and> current_index r > 0 then
                (let r = r\<lparr>current_index := current_index r - 1\<rparr>
                 in case getitem (message_history r ! nat (current_index r)) ''formatted'' of
                      Inl e \<Rightarrow> ([], Break (Crashed e))
                    | Inr f \<Rightarrow> ([], Continue (r\<lparr>formatted_message := f\<rparr>, n, rest)))
              else if choice = ''N'' \<and> current_index r < int (length (message_history r)) - 1 then
                (let r = r\<lparr>current_index := current_index r + 1\<rparr>
                 in case getitem (message_history r ! nat (current_index r)) ''formatted'' of
                      Inl e \<Rightarrow> ([], Break (Crashed e))
                    | Inr f \<Rightarrow> ([], Continue (r\<lparr>formatted_message := f\<rparr>, n, rest)))
              else if choice = ''E'' then
                (case edit_fields (message_history r ! nat (current_index r)) rest of
                   Inl e \<Rightarrow> ([Notice Editing], Break (Crashed e))
                 | Inr (edited_data, rest') \<Rightarrow>
                     (let history =
                            (if current_index r < int (length (message_history r)) - 1
                             then take (nat (current_index r + 1)) (message_history r)
                             else message_history r)
                      in ([Notice Editing],
                          Continue (r\<lparr>message_history := history @ [edited_data],
                                      current_index := int (length (history @ [edited_data])) - 1\<rparr>,
                                    n, rest'))))
              else if choice = ''C'' then ([Notice CommitCancelled], Break Cancelled)
              else ([Notice InvalidOption], Continue (r, n, rest))))"

lemma edit_field_shorter:
  "edit_field d k inp = Inr (v, rest) \<Longrightarrow> length rest < length inp"
  by (auto simp: edit_field_def split: sum.splits list.splits)

lemma edit_body_shorter:
  "edit_body d inp = Inr (v, rest) \<Longrightarrow> length rest < length inp"
  by (auto simp: edit_body_def split: sum.splits list.splits json.splits)

lemma edit_fields_shorter:
  assumes "edit_fields d inp = Inr (e, rest)"
  shows "length rest < length inp"
proof -
  from assms obtain v1 i1 v2 i2 where
    a: "edit_field d ''type'' inp = Inr (v1, i1)" and b: "edit_field d ''scope'' i1 = Inr (v2, i2)"
    by (auto simp: edit_fields_def split: sum.splits prod.splits)
  from assms a b obtain v3 i3 v4 i4 where
    c: "edit_field d ''subject'' i2 = Inr (v3, i3)" and d: "edit_body d i3 = Inr (v4, i4)"
    by (auto simp: edit_fields_def split: sum.splits prod.splits)
  from assms a b c d obtain v5 i5 v6 where
    e: "edit_field d ''breaking'' i4 = Inr (v5, i5)" and f: "edit_field d ''footer'' i5 = Inr (v6, rest)"
    by (auto simp: edit_fields_def split: sum.splits prod.splits)
  from a b c d e f show ?thesis
    by (meson edit_field_shorter edit_body_shorter less_trans)
qed

lemma loop_choice_v2_shorter:
  assumes "loop_choice_v2 lib s st stdin = (ev, Continue (r', n', rest))"
  shows "length rest < length stdin"
proof (cases stdin)
  case Nil
  with assms show ?thesis by (simp add: loop_choice_v2_def Let_def)
next
  case (Cons line more)
  with assms show ?thesis
    by (auto simp: loop_choice_v2_def Let_def less_Suc_eq
        split: if_splits sum.splits json.splits prod.splits dest!: edit_fields_shorter)
qed

text \<open>The \<open>while True\<close> of lines 1809-1949.\<close>

function create_loop_v2 ::
  "library \<Rightarrow> session \<Rightarrow> (json, commit_data) review \<times> net \<Rightarrow> string list
     \<Rightarrow> event list \<times> outcome" where
  "create_loop_v2 lib s st stdin =
     (case loop_top_v2 lib s st of
        (ev, Break out) \<Rightarrow> (ev, out)
      | (ev, Continue st1) \<Rightarrow>
          (case loop_choice_v2 lib s st1 stdin of
             (ev1, Break out) \<Rightarrow> (ev @ ev1, out)
           | (ev1, Continue (r', n', rest)) \<Rightarrow>
               (case create_loop_v2 lib s (r', n') rest of
                  (ev2, out) \<Rightarrow> (ev @ ev1 @ ev2, out))))"
  by pat_completeness auto
termination
  by (relation "measure (\<lambda>(lib, s, st, stdin). length stdin)")
     (auto dest: loop_choice_v2_shorter [OF sym])

declare create_loop_v2.simps [simp del]

text \<open>
  \<open>create_new_commit\<close>, lines 1794-1949; \<open>diff s\<close> is what \<open>get_git_diff\<close> returns.
  \<open>formatted_message\<close> has no value before the first draft is shown; \<open>JNull\<close> stands
  for that.
\<close>

definition create_new_commit_v2 ::
  "library \<Rightarrow> session \<Rightarrow> net \<Rightarrow> string list \<Rightarrow> event list \<times> outcome" where
  "create_new_commit_v2 lib s n stdin =
     (if diff s = [] then (stage_changes None True @ [Notice NoChanges], NothingToCommit)
      else (case create_loop_v2 lib s
                   (\<lparr>formatted_message = JNull, message_history = [], current_index = - 1\<rparr>, n)
                   stdin of
              (ev, out) \<Rightarrow> (stage_changes None True @ ev, out)))"

subsection \<open>A stubbed session\<close>

text \<open>
  A canned diff, a remote service that is stubbed, and a user who types little: the
  reply of the specification's example, a service that answers once and then times out,
  one that answers twice, one whose reply has \<open>null\<close> for the type of the commit, and
  one whose reply fills every field but the scope.
  The library of these runs is Python's on what they use of it: the case mapping on the
  ASCII characters (no other character is typed), the reader of flat JSON objects
  above, \<open>str\<close> on \<open>None\<close> and the booleans, and a \<open>textwrap.fill\<close> that has nothing
  to wrap.
\<close>

definition ascii_upper :: "char \<Rightarrow> string" where
  "ascii_upper c =
     (case map_of (zip ''abcdefghijklmnopqrstuvwxyz'' ''ABCDEFGHIJKLMNOPQRSTUVWXYZ'') c of
        Some u \<Rightarrow> [u]
      | None \<Rightarrow> [c])"

definition ascii_isupper :: "char \<Rightarrow> bool" where
  "ascii_isupper c \<longleftrightarrow> c \<in> set ''ABCDEFGHIJKLMNOPQRSTUVWXYZ''"

definition stub_library :: library where
  "stub_library =
     \<lparr>str_upper = ascii_upper, str_isupper = ascii_isupper,
      str_of = (\<lambda>v. case v of JNull \<Rightarrow> ''None'' | JBool b \<Rightarrow> (if b then ''True'' else ''False'')
                             | _ \<Rightarrow> []),
      json_loads = json_loads_flat, textwrap_fill = (\<lambda>width subsequent_indent text. text)\<rparr>"

definition stub_reply :: string where
  \<open>stub_reply = ''{"type":"fix","scope":"core","subject":"Fix crash","body":"","breaking":"","footer":""}''\<close>

definition stub_reply_null :: string where
  \<open>stub_reply_null = ''{"type":null,"scope":"core","subject":"Fix crash","body":"","breaking":"","footer":""}''\<close>

definition stub_reply_full :: string where
  \<open>stub_reply_full = ''{"type":"feat","scope":"","subject":"Add x","body":"Why.","breaking":"drop y","footer":"Closes #1"}''\<close>

definition stub_session :: session where
  "stub_session = \<lparr>api_key = ''key'', diff = ''diff --git a/x b/x'', commit_type = ''fix'',
     scope = ''core'', lang = ''es'', git_ok = (\<lambda>m. True)\<rparr>"

definition stub_net_fail :: net where
  "stub_net_fail = \<lparr>replies = (\<lambda>i. if i = 0 then Content stub_reply else Raised Timeout), posts = 0\<rparr>"

definition stub_net_two :: net where
  "stub_net_two =
     \<lparr>replies = (\<lambda>i. if i = 0 then Content stub_reply else Content ''docs: Update readme''),
      posts = 0\<rparr>"

definition stub_net_null :: net where
  "stub_net_null = \<lparr>replies = (\<lambda>i. Content stub_reply_null), posts = 0\<rparr>"

definition stub_net_full :: net where
  "stub_net_full = \<lparr>replies = (\<lambda>i. Content stub_reply_full), posts = 0\<rparr>"

definition stub_review_start :: "(json, commit_data) review" where
  "stub_review_start = \<lparr>formatted_message = JNull, message_history = [], current_index = - 1\<rparr>"

definition stub_review_v1 :: "(string, string) review" where
  "stub_review_v1 = \<lparr>formatted_message = ''fix(core): Fix crash'',
     message_history = [''fix(core): Fix crash''], current_index = 0\<rparr>"

definition stub_review_v2 :: "(json, commit_data) review" where
  "stub_review_v2 = \<lparr>formatted_message = JStr ''fix(core): Fix crash'',
     message_history = [make_commit_data (JStr ''fix'') (JStr ''core'') (JStr ''Fix crash'')
                          (JStr []) (JStr []) (JStr [])],
     current_index = 0\<rparr>"

section \<open>Facts about the string primitives\<close>

lemma endswith_period: "endswith s ''.'' \<longleftrightarrow> s \<noteq> [] \<and> last s = CHR ''.''"
proof (cases s rule: rev_cases)
  case Nil
  then show ?thesis by (simp add: endswith_def)
next
  case (snoc ys y)
  then show ?thesis by (auto simp: endswith_def)
qed

lemma strip_length_le: "length (strip s) \<le> length s"
proof -
  have "length (strip s) = length (dropWhile py_isspace (rev (dropWhile py_isspace s)))"
    by (simp add: strip_def)
  also have "\<dots> \<le> length (rev (dropWhile py_isspace s))" by (rule length_dropWhile_le)
  also have "\<dots> = length (dropWhile py_isspace s)" by simp
  also have "\<dots> \<le> length s" by (rule length_dropWhile_le)
  finally show ?thesis .
qed




lemma capitalize_length_ge: "s \<noteq> [] \<Longrightarrow> u \<noteq> [] \<Longrightarrow> length s \<le> length (u @ tl s)"
  by (cases s; cases u) simp_all

text \<open>The facts of the library of the stubbed session.\<close>

lemma ascii_upper_nonempty: "ascii_upper c \<noteq> []"
  by (simp add: ascii_upper_def split: option.split)

lemma ascii_letters_fixed: "\<forall>c \<in> set ''ABCDEFGHIJKLMNOPQRSTUVWXYZ''. ascii_upper c = [c]"
  by (simp add: ascii_upper_def)

lemma ascii_isupper_fixed: "ascii_isupper c \<Longrightarrow> ascii_upper c = [c]"
  using ascii_letters_fixed unfolding ascii_isupper_def by blast

lemma stub_library_simps [simp]:
  "str_upper stub_library = ascii_upper"
  "str_isupper stub_library = ascii_isupper"
  "json_loads stub_library = json_loads_flat"
  "textwrap_fill stub_library = (\<lambda>width subsequent_indent text. text)"
  by (simp_all add: stub_library_def)

section \<open>The subject line\<close>

lemma message_header_only_v1:
  "format_commit_message_v1 lib ty sc subject [] [] [] = format_header_v1 lib ty sc subject"
  by (simp add: format_commit_message_v1_def format_body_v1_def format_breaking_v1_def
      format_footer_v1_def)

lemma message_header_only_v2:
  "format_commit_message_v2 lib ty sc subject [] [] [] =
     ty @ sc @ '': '' @ format_subject_v2 lib subject"
  by (simp add: format_commit_message_v2_def)

lemma format_header_v1_eq:
  "format_header_v1 lib ty sc subject =
     ty @ (if sc \<noteq> [] then ''('' @ sc @ '')'' else []) @ '': '' @ format_subject_v1 lib subject"
  by (simp add: format_header_v1_def)

lemma format_subject_v1_long:
  assumes "subject_max_length < length subject" and "str_upper lib (hd subject) \<noteq> []"
  shows "format_subject_v1 lib subject =
           take 50 (if endswith (str_upper lib (hd subject) @ tl subject) ''.''
                    then butlast (str_upper lib (hd subject) @ tl subject)
                    else str_upper lib (hd subject) @ tl subject)"
    and "length (format_subject_v1 lib subject) = 50"
proof -
  define c where "c = str_upper lib (hd subject) @ tl subject"
  from assms(1) have ne: "subject \<noteq> []" by auto
  have len: "length subject \<le> length c"
    unfolding c_def using ne assms(2) by (rule capitalize_length_ge)
  with assms(1) have cne: "c \<noteq> []" by auto
  show eq: "format_subject_v1 lib subject =
      take 50 (if endswith (str_upper lib (hd subject) @ tl subject) ''.''
               then butlast (str_upper lib (hd subject) @ tl subject)
               else str_upper lib (hd subject) @ tl subject)"
    unfolding c_def [symmetric] using ne cne
    by (simp add: format_subject_v1_def subject_capitalize_def subject_no_period_def
        subject_max_length_def Let_def c_def [symmetric])
  show "length (format_subject_v1 lib subject) = 50"
    unfolding eq c_def [symmetric] using len assms(1) by (simp add: subject_max_length_def)
qed


lemma format_subject_v2_eq:
  "format_subject_v2 lib subject =
     (let st = strip subject;
          cap = (if st \<noteq> [] \<and> \<not> str_isupper lib (hd st) then str_upper lib (hd st) @ tl st
                 else st)
      in if endswith cap ''.'' then butlast cap else cap)"
  by (simp add: format_subject_v2_def Let_def endswith_period)


lemma format_subject_v2_length:
  assumes "\<forall>c. str_upper lib c \<noteq> []"
  shows "length (strip subject) - 1 \<le> length (format_subject_v2 lib subject)"
proof -
  define s where "s = strip subject"
  define cap where
    "cap = (if s \<noteq> [] \<and> \<not> str_isupper lib (hd s) then str_upper lib (hd s) @ tl s else s)"
  have "str_upper lib (hd s) \<noteq> []" using assms by simp
  then have "s \<noteq> [] \<Longrightarrow> length s \<le> length (str_upper lib (hd s) @ tl s)"
    by (rule capitalize_length_ge [rotated])
  then have len: "length s \<le> length cap" by (simp add: cap_def)
  have "format_subject_v2 lib subject = (if endswith cap ''.'' then butlast cap else cap)"
    unfolding format_subject_v2_eq Let_def s_def [symmetric] cap_def [symmetric] ..
  then show ?thesis using len by (auto simp: s_def [symmetric])
qed

text \<open>
  Claim C1, as the code has it. A subject longer than the limit of 50 characters is
  never rejected and raises no warning. The first variant capitalizes it, removes one
  trailing period and keeps exactly the first 50 characters of the result. The second
  variant has no limit: its header carries the whole subject, stripped of surrounding
  white space, capitalized when its first character is not uppercase, and without one
  trailing period, so that it is at most one character shorter than the stripped
  subject. Of the library this needs that the upper case of a character is never the
  empty string.
\<close>

theorem subject_over_limit:
  assumes "subject_max_length < length subject" and "\<forall>c. str_upper lib c \<noteq> []"
  shows "format_commit_message_v1 lib ty sc subject [] [] [] =
           ty @ (if sc \<noteq> [] then ''('' @ sc @ '')'' else []) @ '': '' @
           take 50 (if endswith (str_upper lib (hd subject) @ tl subject) ''.''
                    then butlast (str_upper lib (hd subject) @ tl subject)
                    else str_upper lib (hd subject) @ tl subject)
       \<and> length (format_subject_v1 lib subject) = 50
       \<and> format_commit_message_v2 lib ty sc subject [] [] [] =
           ty @ sc @ '': '' @
           (let st = strip subject;
                cap = (if st \<noteq> [] \<and> \<not> str_isupper lib (hd st)
                       then str_upper lib (hd st) @ tl st else st)
            in if endswith cap ''.'' then butlast cap else cap)
       \<and> length (strip subject) - 1 \<le> length (format_subject_v2 lib subject)"
proof -
  from assms(2) have u: "str_upper lib (hd subject) \<noteq> []" by simp
  show ?thesis
    using format_subject_v1_long [OF assms(1) u] format_subject_v2_length [OF assms(2)]
    by (simp add: message_header_only_v1 message_header_only_v2 format_header_v1_eq
        format_subject_v2_eq)
qed

theorem subject_over_limit_witness:
  "subject_max_length < length ''add retry logic to the remote client and log failures.''
   \<and> (\<forall>c. str_upper stub_library c \<noteq> [])
   \<and> format_commit_message_v1 stub_library ''fix'' ''core''
        ''add retry logic to the remote client and log failures.'' [] [] [] =
      ''fix(core): Add retry logic to the remote client and log failu''
   \<and> length (format_subject_v1 stub_library
               ''add retry logic to the remote client and log failures.'') = 50
   \<and> format_commit_message_v2 stub_library ''fix'' ''(core)''
        ''  add retry logic to the remote client and log failures.  '' [] [] [] =
      ''fix(core): Add retry logic to the remote client and log failures''"
proof -
  have h: "subject_max_length < length ''add retry logic to the remote client and log failures.''"
    by code_simp
  have h2: "subject_max_length
      < length ''  add retry logic to the remote client and log failures.  ''"
    by code_simp
  have u: "\<forall>c. str_upper stub_library c \<noteq> []" by (simp add: ascii_upper_nonempty)
  have v: "format_commit_message_v1 stub_library ''fix'' ''core''
        ''add retry logic to the remote client and log failures.'' [] [] [] =
      ''fix(core): Add retry logic to the remote client and log failu''"
    by code_simp
  have w: "format_commit_message_v2 stub_library ''fix'' ''(core)''
        ''  add retry logic to the remote client and log failures.  '' [] [] [] =
      ''fix(core): Add retry logic to the remote client and log failures''"
    by code_simp
  show ?thesis
    using h u v w subject_over_limit [OF h u, of "''fix''" "''core''"] by blast
qed

text \<open>
  The claim as it was stated fails on the second variant: a subject of 54 characters
  that ends with a period comes out with 53.
\<close>

theorem subject_length_changed_v2:
  "subject_max_length < length ''add retry logic to the remote client and log failures.''
   \<and> format_commit_message_v2 stub_library ''fix'' ''(core)''
        ''add retry logic to the remote client and log failures.'' [] [] [] =
      ''fix(core): Add retry logic to the remote client and log failures''
   \<and> length (format_subject_v2 stub_library
               ''add retry logic to the remote client and log failures.'')
       \<noteq> length ''add retry logic to the remote client and log failures.''"
  by code_simp




text \<open>
  Claim C7. On a header that is already well formed the header rule changes nothing,
  so applying it twice gives what applying it once gives: for a subject that is not
  empty, starts with an uppercase character, does not end with a period and has at most
  50 characters, the subject comes out as it went in, and the header built from the
  formatted subject is the header built from the subject. Of the library this needs
  that an uppercase character is its own upper case.
\<close>

theorem header_idempotent:
  assumes "subject \<noteq> []" and "str_isupper lib (hd subject)"
    and "\<not> endswith subject ''.''" and "length subject \<le> subject_max_length"
    and "\<forall>c. str_isupper lib c \<longrightarrow> str_upper lib c = [c]"
  shows "format_subject_v1 lib subject = subject
       \<and> format_header_v1 lib ty sc (format_subject_v1 lib subject) =
           format_header_v1 lib ty sc subject
       \<and> format_commit_message_v1 lib ty sc (format_subject_v1 lib subject) [] [] [] =
           format_commit_message_v1 lib ty sc subject [] [] []"
proof -
  have "str_upper lib (hd subject) @ tl subject = subject"
    using assms(1,2,5) by simp
  then have "format_subject_v1 lib subject = subject"
    using assms(1,3,4)
    by (simp add: format_subject_v1_def Let_def subject_capitalize_def subject_no_period_def)
  then show ?thesis by (simp add: message_header_only_v1 format_header_v1_def)
qed

theorem header_idempotent_witness:
  "''Fix crash'' \<noteq> [] \<and> str_isupper stub_library (hd ''Fix crash'')
   \<and> \<not> endswith ''Fix crash'' ''.''
   \<and> length ''Fix crash'' \<le> subject_max_length
   \<and> {c. str_isupper stub_library c} \<subseteq> {c. str_upper stub_library c = [c]}
   \<and> format_subject_v1 stub_library ''Fix crash'' = ''Fix crash''
   \<and> format_header_v1 stub_library ''fix'' ''core'' (format_subject_v1 stub_library ''Fix crash'') =
       ''fix(core): Fix crash''"
proof -
  have h: "''Fix crash'' \<noteq> []" "str_isupper stub_library (hd ''Fix crash'')"
    "\<not> endswith ''Fix crash'' ''.''" "length ''Fix crash'' \<le> subject_max_length"
    by code_simp+
  have l: "\<forall>c. str_isupper stub_library c \<longrightarrow> str_upper stub_library c = [c]"
    by (simp add: ascii_isupper_fixed)
  have v: "format_header_v1 stub_library ''fix'' ''core'' ''Fix crash'' = ''fix(core): Fix crash''"
    by code_simp
  from l have l': "{c. str_isupper stub_library c} \<subseteq> {c. str_upper stub_library c = [c]}"
    by blast
  show ?thesis
    using h l' v header_idempotent [OF h l, of "''fix''" "''core''"] by simp
qed

section \<open>Breaking changes, footer, generator errors, staging\<close>

lemma breaking_marker_v1:
  assumes "breaking \<noteq> []"
  shows "startswith (format_breaking_v1 breaking) breaking_changes_prefix
       \<and> (format_breaking_v1 breaking = breaking_changes_prefix @ breaking
            \<longleftrightarrow> \<not> startswith breaking breaking_changes_prefix)"
  using assms by (auto simp: format_breaking_v1_def startswith_def breaking_changes_prefix_def)

text \<open>
  Claim C2. The first variant adds the marker \<open>BREAKING CHANGE: \<close> exactly when the
  text does not start with it (\<open>breaking_marker_v1\<close>). The second variant adds it
  always: a text that already starts with the marker comes out with the marker twice.
\<close>
theorem breaking_marker_doubled_v2:
  "format_commit_message_v2 stub_library ''feat'' [] ''add x'' [] ''BREAKING CHANGE: drop the old API'' [] =
     ''feat: Add x\<newline>\<newline>BREAKING CHANGE: BREAKING CHANGE: drop the old API''"
  by code_simp

lemma findall_issue_hash: "findall_issue s \<noteq> [] \<Longrightarrow> contains ''#'' s"
  by (induction s rule: findall_issue.induct) (auto simp: startswith_def split: if_splits)

lemma issue_template: "replace ''{issue}'' ref footer_issue_references = ''Soluciona: #'' @ ref"
  by (simp add: footer_issue_references_def startswith_def)

lemma join_nonempty: "x \<noteq> [] \<Longrightarrow> join sep (x # xs) \<noteq> []"
  by (cases xs) simp_all

lemma format_footer_v1_refs:
  assumes "findall_issue footer \<noteq> []" and "\<not> contains ''Soluciona'' footer"
    and "\<not> contains ''Closes'' footer"
  shows "format_footer_v1 footer =
           join ''\<newline>'' (map (\<lambda>n. ''Soluciona: #'' @ n) (findall_issue footer))"
proof -
  from assms(1) have "contains ''#'' footer" by (rule findall_issue_hash)
  moreover from assms(1) have "footer \<noteq> []" by auto
  ultimately show ?thesis
    using assms by (simp add: format_footer_v1_def issue_template Let_def)
qed

text \<open>
  Claim C5, as the code has it. In the first variant a footer that holds an issue
  reference \<open>#number\<close> and holds neither \<open>Soluciona\<close> nor \<open>Closes\<close> is replaced by
  one line \<open>Soluciona: #number\<close> for each reference, in order; a footer that holds
  \<open>Soluciona\<close> or \<open>Closes\<close> is left as it is. The second variant keeps the footer in
  one piece and puts \<open>Soluciona: \<close> before it unless it starts with \<open>Soluciona:\<close> or
  \<open>Closes:\<close>.
\<close>
theorem footer_issue_references_rewritten:
  "(findall_issue footer \<noteq> [] \<and> \<not> contains ''Soluciona'' footer \<and> \<not> contains ''Closes'' footer
      \<longrightarrow> format_commit_message_v1 lib ty sc subject [] [] footer =
            format_header_v1 lib ty sc subject @ ''\<newline>\<newline>'' @
            join ''\<newline>'' (map (\<lambda>n. ''Soluciona: #'' @ n) (findall_issue footer)))
   \<and> (contains ''Soluciona'' footer \<or> contains ''Closes'' footer
      \<longrightarrow> format_footer_v1 footer = footer)
   \<and> (footer \<noteq> []
      \<longrightarrow> format_commit_message_v2 lib ty sc subject [] [] footer =
            ty @ sc @ '': '' @ format_subject_v2 lib subject @ ''\<newline>\<newline>'' @
            (if startswith footer ''Soluciona:'' \<or> startswith footer ''Closes:'' then footer
             else ''Soluciona: '' @ footer))"
proof (intro conjI impI)
  assume a: "findall_issue footer \<noteq> [] \<and> \<not> contains ''Soluciona'' footer
             \<and> \<not> contains ''Closes'' footer"
  then have f: "format_footer_v1 footer =
      join ''\<newline>'' (map (\<lambda>n. ''Soluciona: #'' @ n) (findall_issue footer))"
    by (simp add: format_footer_v1_refs)
  obtain r rs where r: "findall_issue footer = r # rs"
    using a by (cases "findall_issue footer") auto
  have "format_footer_v1 footer \<noteq> []"
    unfolding f r by (simp add: join_nonempty)
  then have "format_commit_message_v1 lib ty sc subject [] [] footer =
      format_header_v1 lib ty sc subject @ ''\<newline>\<newline>'' @ format_footer_v1 footer"
    by (simp add: format_commit_message_v1_def format_body_v1_def format_breaking_v1_def)
  then show "format_commit_message_v1 lib ty sc subject [] [] footer =
      format_header_v1 lib ty sc subject @ ''\<newline>\<newline>'' @
      join ''\<newline>'' (map (\<lambda>n. ''Soluciona: #'' @ n) (findall_issue footer))"
    by (simp only: f)
next
  assume "contains ''Soluciona'' footer \<or> contains ''Closes'' footer"
  then show "format_footer_v1 footer = footer"
    by (auto simp: format_footer_v1_def)
next
  assume "footer \<noteq> []"
  then show "format_commit_message_v2 lib ty sc subject [] [] footer =
      ty @ sc @ '': '' @ format_subject_v2 lib subject @ ''\<newline>\<newline>'' @
      (if startswith footer ''Soluciona:'' \<or> startswith footer ''Closes:'' then footer
       else ''Soluciona: '' @ footer)"
    by (simp add: format_commit_message_v2_def)
qed

theorem footer_issue_references_witness:
  "findall_issue ''see #42 and #7'' = [''42'', ''7'']
   \<and> \<not> contains ''Soluciona'' ''see #42 and #7'' \<and> \<not> contains ''Closes'' ''see #42 and #7''
   \<and> format_commit_message_v1 stub_library ''fix'' ''core'' ''Fix crash'' [] [] ''see #42 and #7'' =
       ''fix(core): Fix crash\<newline>\<newline>Soluciona: #42\<newline>Soluciona: #7''
   \<and> contains ''Closes'' ''Closes #42'' \<and> format_footer_v1 ''Closes #42'' = ''Closes #42''
   \<and> format_commit_message_v2 stub_library ''fix'' ''(core)'' ''Fix crash'' [] [] ''#42'' =
       ''fix(core): Fix crash\<newline>\<newline>Soluciona: #42''"
proof -
  have h1: "findall_issue ''see #42 and #7'' = [''42'', ''7'']"
    and h2: "\<not> contains ''Soluciona'' ''see #42 and #7''"
    and h3: "\<not> contains ''Closes'' ''see #42 and #7''"
    and h4: "contains ''Closes'' ''Closes #42''"
    and e1: "format_header_v1 stub_library ''fix'' ''core'' ''Fix crash'' = ''fix(core): Fix crash''"
    and e2: "format_subject_v2 stub_library ''Fix crash'' = ''Fix crash''"
    by code_simp+
  have g1: "findall_issue ''see #42 and #7'' \<noteq> [] \<and> \<not> contains ''Soluciona'' ''see #42 and #7''
      \<and> \<not> contains ''Closes'' ''see #42 and #7''"
    using h1 h2 h3 by simp
  have g2: "contains ''Soluciona'' ''Closes #42'' \<or> contains ''Closes'' ''Closes #42''"
    using h4 by simp
  have g3: "''#42'' \<noteq> []" by simp
  have c1: "format_commit_message_v1 stub_library ''fix'' ''core'' ''Fix crash'' [] []
      ''see #42 and #7'' = ''fix(core): Fix crash\<newline>\<newline>Soluciona: #42\<newline>Soluciona: #7''"
    using footer_issue_references_rewritten
      [of "''see #42 and #7''" stub_library "''fix''" "''core''" "''Fix crash''",
        THEN conjunct1, THEN mp, OF g1, unfolded h1 e1]
    by simp
  have c2: "format_footer_v1 ''Closes #42'' = ''Closes #42''"
    using footer_issue_references_rewritten
      [of "''Closes #42''" stub_library "''fix''" "''core''" "''Fix crash''",
        THEN conjunct2, THEN conjunct1, THEN mp, OF g2] .
  have c3: "format_commit_message_v2 stub_library ''fix'' ''(core)'' ''Fix crash'' [] [] ''#42'' =
       ''fix(core): Fix crash\<newline>\<newline>Soluciona: #42''"
    using footer_issue_references_rewritten
      [of "''#42''" stub_library "''fix''" "''(core)''" "''Fix crash''",
        THEN conjunct2, THEN conjunct2, THEN mp, OF g3, unfolded e2]
    by (simp add: startswith_def)
  show ?thesis using h1 h2 h3 h4 c1 c2 c3 by blast
qed

text \<open>
  The claim as it was stated fails: the first variant leaves \<open>Closes #42\<close> alone, and
  the second makes one line of two references.
\<close>
theorem footer_not_rewritten:
  "format_commit_message_v1 stub_library ''fix'' ''core'' ''Fix crash'' [] [] ''Closes #42'' =
     ''fix(core): Fix crash\<newline>\<newline>Closes #42''
   \<and> format_commit_message_v2 stub_library ''fix'' ''(core)'' ''Fix crash'' [] [] ''#1, #2'' =
     ''fix(core): Fix crash\<newline>\<newline>Soluciona: #1, #2''"
  by code_simp

text \<open>
  Claim C4. When the POST raises, whatever the exception, \<open>generate_commit_message\<close>
  returns the empty string in the first variant and the dictionary of six empty fields
  in the second, and exactly one request has been sent: nothing is retried. (The diff is
  not empty here: on an empty diff no request is sent at all.)
\<close>
theorem generate_empty_on_error:
  assumes "changes \<noteq> []" and "replies n (posts n) = Raised e"
  shows "generate_commit_message_v1 n key changes ty sc lg = ([], n\<lparr>posts := Suc (posts n)\<rparr>)
       \<and> generate_commit_message_v2 lib n key changes lg =
           ([(''type'', JStr []), (''scope'', JStr []), (''subject'', JStr []),
             (''body'', JStr []),
             (''breaking'', JStr []), (''footer'', JStr [])], n\<lparr>posts := Suc (posts n)\<rparr>)"
  using assms
  by (simp add: generate_commit_message_v1_def generate_commit_message_v2_def post_def
      make_commit_data_def)

theorem generate_empty_on_error_witness:
  "''diff --git a/x b/x'' \<noteq> []
   \<and> replies \<lparr>replies = (\<lambda>i. Raised Timeout), posts = 0\<rparr>
        (posts \<lparr>replies = (\<lambda>i. Raised Timeout), posts = 0\<rparr>) = Raised Timeout
   \<and> fst (generate_commit_message_v1 \<lparr>replies = (\<lambda>i. Raised Timeout), posts = 0\<rparr> ''key''
        ''diff --git a/x b/x'' ''fix'' ''core'' ''en'') = []
   \<and> posts (snd (generate_commit_message_v1 \<lparr>replies = (\<lambda>i. Raised Timeout), posts = 0\<rparr> ''key''
        ''diff --git a/x b/x'' ''fix'' ''core'' ''en'')) = 1
   \<and> fst (generate_commit_message_v2 stub_library \<lparr>replies = (\<lambda>i. Raised Timeout), posts = 0\<rparr>
        ''key'' ''diff --git a/x b/x'' ''es'') =
       [(''type'', JStr []), (''scope'', JStr []), (''subject'', JStr []),
             (''body'', JStr []),
        (''breaking'', JStr []), (''footer'', JStr [])]"
proof -
  have h1: "''diff --git a/x b/x'' \<noteq> []" by simp
  have h2: "replies \<lparr>replies = (\<lambda>i. Raised Timeout), posts = 0\<rparr>
        (posts \<lparr>replies = (\<lambda>i. Raised Timeout), posts = 0\<rparr>) = Raised Timeout" by simp
  show ?thesis
    using h1 h2
      generate_empty_on_error [OF h1 h2, of "''key''" "''fix''" "''core''" "''en''" stub_library]
      generate_empty_on_error [OF h1 h2, of "''key''" "''fix''" "''core''" "''es''" stub_library]
    by simp
qed

text \<open>
  Claim C10. \<open>stage\<close> with no file and without \<open>--all\<close> does what \<open>stage --all\<close> does:
  the dispatcher calls \<open>stage_changes\<close> with \<open>all_files=True\<close>, which runs
  \<open>git add .\<close>; and whatever the arguments, the dispatcher never reaches the branch of
  \<open>stage_changes\<close> that reports that no files were given, which a direct call with
  neither files nor \<open>all_files\<close> does reach.
\<close>
theorem stage_without_arguments:
  "main_stage \<lparr>files = [], all = False\<rparr> = main_stage \<lparr>files = [], all = True\<rparr>
   \<and> main_stage \<lparr>files = [], all = False\<rparr> = stage_changes None True
   \<and> stage_changes None True =
       [Run [''git'', ''add'', ''.''], Notice AllStaged, Notice CommandsExecuted,
        Print ''$ git add .'']
   \<and> (\<forall>args. Notice NoFilesSpecified \<notin> set (main_stage args))
   \<and> stage_changes None False = [Notice NoFilesSpecified]"
proof -
  have "Notice NoFilesSpecified \<notin> set (main_stage args)" for args
    by (cases "files args") (auto simp: main_stage_def stage_changes_def)
  then show ?thesis by (simp add: main_stage_def stage_changes_def)
qed


section \<open>The review loop of the first variant\<close>

lemma is_git_commit_simps [simp]:
  "is_git_commit (Run [''git'', ''commit'', ''-m'', m])"
  "\<not> is_git_commit (Print x)"
  "\<not> is_git_commit (Notice y)"
  by (simp_all add: is_git_commit_def)

lemma loop_body_v1_eof:
  "loop_body_v1 lib s st [] =
     ([Print (formatted_message (fst st)), Notice Options], Break (Crashed EOFError))"
  by (simp add: loop_body_v1_def Let_def)

lemma loop_body_v1_commits:
  "list_ex is_git_commit (fst (loop_body_v1 lib s st (line # rest))) \<longleftrightarrow>
     upper lib (strip line) = ''A'' \<and> CHR 0x00 \<notin> set (formatted_message (fst st))"
  by (simp add: loop_body_v1_def Let_def split: prod.split option.split)

lemma loop_body_v1_accept:
  assumes "upper lib (strip line) = ''A''"
  shows "loop_body_v1 lib s (r, n) (line # rest) =
           (if CHR 0x00 \<in> set (formatted_message r)
            then ([Print (formatted_message r), Notice Options, Notice ErrorCreatingCommit],
                  Break CommitNotStarted)
            else ([Print (formatted_message r), Notice Options,
                   Run [''git'', ''commit'', ''-m'', formatted_message r]]
                  @ (if git_ok s (formatted_message r) then [] else [Notice GitError])
                  @ [Notice CommitCreated],
                  Break (if git_ok s (formatted_message r) then Committed else CommitFailed)))"
  using assms by (simp add: loop_body_v1_def Let_def)

lemma loop_body_v1_regenerate:
  assumes "upper lib (strip line) = ''R''"
  shows "loop_body_v1 lib s (r, n) (line # rest) =
           (case generate_commit_message_v1 n (api_key s) (diff s) (commit_type s) (scope s) (lang s) of
              (new_message, n') \<Rightarrow>
                if new_message \<noteq> [] then
                  ([Print (formatted_message r), Notice Options, Notice Regenerating],
                   Continue (r\<lparr>formatted_message := new_message,
                               message_history := message_history r @ [new_message],
                               current_index := int (length (message_history r))\<rparr>, n', rest))
                else
                  ([Print (formatted_message r), Notice Options, Notice Regenerating,
                    Notice FailedToRegenerate],
                   Continue (r, n', rest)))"
  using assms by (simp add: loop_body_v1_def Let_def split: prod.split)

lemma loop_body_v1_edit:
  assumes "upper lib (strip line) = ''E''"
  shows "loop_body_v1 lib s (r, n) (line # rest) =
           (case read_edit_lines [] rest of
              None \<Rightarrow>
                ([Print (formatted_message r), Notice Options, Print (formatted_message r),
                  Notice EnterMessage], Break (Crashed EOFError))
            | Some (lines, rest') \<Rightarrow>
                ([Print (formatted_message r), Notice Options, Print (formatted_message r),
                  Notice EnterMessage],
                 Continue (r\<lparr>formatted_message := join ''\<newline>'' lines,
                             message_history := message_history r @ [join ''\<newline>'' lines],
                             current_index := int (length (message_history r))\<rparr>, n, rest')))"
  using assms by (simp add: loop_body_v1_def Let_def split: option.split)

lemma loop_body_v1_cancel:
  assumes "upper lib (strip line) = ''C''"
  shows "loop_body_v1 lib s (r, n) (line # rest) =
           ([Print (formatted_message r), Notice Options, Notice CommitCancelled], Break Cancelled)"
  using assms by (simp add: loop_body_v1_def Let_def)

lemma loop_body_v1_other:
  assumes "upper lib (strip line) \<noteq> ''A''" "upper lib (strip line) \<noteq> ''R''"
    "upper lib (strip line) \<noteq> ''E''" "upper lib (strip line) \<noteq> ''C''"
  shows "loop_body_v1 lib s (r, n) (line # rest) =
           ([Print (formatted_message r), Notice Options, Notice InvalidOption],
            Continue (r, n, rest))"
  using assms by (simp add: loop_body_v1_def Let_def)

lemma loop_body_v1_flow:
  "(\<forall>x. snd (loop_body_v1 lib s st (line # rest)) = Continue x \<longrightarrow> upper lib (strip line) \<noteq> ''A'')
   \<and> (\<forall>out. snd (loop_body_v1 lib s st (line # rest)) = Break out \<longrightarrow>
          (upper lib (strip line) = ''A'' \<and> CHR 0x00 \<notin> set (formatted_message (fst st))
             \<longleftrightarrow> out = Committed \<or> out = CommitFailed))"
proof -
  obtain r n where st: "st = (r, n)" by (cases st)
  consider "upper lib (strip line) = ''A''" | "upper lib (strip line) = ''R''"
    | "upper lib (strip line) = ''E''" | "upper lib (strip line) = ''C''"
    | "upper lib (strip line) \<noteq> ''A''" "upper lib (strip line) \<noteq> ''R''"
      "upper lib (strip line) \<noteq> ''E''" "upper lib (strip line) \<noteq> ''C''"
    by blast
  then show ?thesis
  proof cases
    case 1
    then show ?thesis unfolding st by (simp add: loop_body_v1_accept)
  next
    case 2
    then show ?thesis unfolding st by (simp add: loop_body_v1_regenerate split: prod.split)
  next
    case 3
    then show ?thesis unfolding st by (simp add: loop_body_v1_edit split: option.split)
  next
    case 4
    then show ?thesis unfolding st by (simp add: loop_body_v1_cancel)
  next
    case 5
    then show ?thesis unfolding st by (simp add: loop_body_v1_other)
  qed
qed

lemma loop_body_v1_continue:
  assumes "loop_body_v1 lib s st stdin = (ev, Continue x)"
  shows "\<not> list_ex is_git_commit ev"
proof (cases stdin)
  case Nil
  with assms show ?thesis by (simp add: loop_body_v1_eof)
next
  case (Cons line rest)
  from assms Cons have e: "fst (loop_body_v1 lib s st (line # rest)) = ev"
    and f: "snd (loop_body_v1 lib s st (line # rest)) = Continue x" by simp_all
  from f loop_body_v1_flow [of lib s st line rest] have "upper lib (strip line) \<noteq> ''A''" by blast
  with loop_body_v1_commits [of lib s st line rest] show ?thesis unfolding e by blast
qed

lemma loop_body_v1_break:
  assumes "loop_body_v1 lib s st stdin = (ev, Break out)"
  shows "list_ex is_git_commit ev \<longleftrightarrow> out = Committed \<or> out = CommitFailed"
proof (cases stdin)
  case Nil
  with assms show ?thesis by (auto simp: loop_body_v1_eof)
next
  case (Cons line rest)
  from assms Cons have e: "fst (loop_body_v1 lib s st (line # rest)) = ev"
    and f: "snd (loop_body_v1 lib s st (line # rest)) = Break out" by simp_all
  from f loop_body_v1_flow [of lib s st line rest]
  have "upper lib (strip line) = ''A'' \<and> CHR 0x00 \<notin> set (formatted_message (fst st))
      \<longleftrightarrow> out = Committed \<or> out = CommitFailed" by blast
  with loop_body_v1_commits [of lib s st line rest] show ?thesis unfolding e by blast
qed

lemma create_loop_v1_commits:
  "list_ex is_git_commit (fst (create_loop_v1 lib s st stdin)) \<longleftrightarrow>
     snd (create_loop_v1 lib s st stdin) = Committed \<or> snd (create_loop_v1 lib s st stdin) = CommitFailed"
proof (induction lib s st stdin rule: create_loop_v1.induct)
  case (1 lib s st stdin)
  obtain ev fl where b: "loop_body_v1 lib s st stdin = (ev, fl)" by (cases "loop_body_v1 lib s st stdin")
  show ?case
  proof (cases fl)
    case (Break out)
    with b have "create_loop_v1 lib s st stdin = (ev, out)"
      by (subst create_loop_v1.simps) simp
    with b Break loop_body_v1_break [of lib s st stdin ev out] show ?thesis by simp
  next
    case (Continue x)
    obtain r' n' rest where x: "x = (r', n', rest)" by (cases x)
    obtain ev' out where c: "create_loop_v1 lib s (r', n') rest = (ev', out)"
      by (cases "create_loop_v1 lib s (r', n') rest")
    have ih: "list_ex is_git_commit ev' \<longleftrightarrow> out = Committed \<or> out = CommitFailed"
      using "1.IH" [OF b [symmetric] Continue x [symmetric] refl] c by simp
    have nc: "\<not> list_ex is_git_commit ev"
      using b Continue by (auto dest: loop_body_v1_continue)
    have "create_loop_v1 lib s st stdin = (ev @ ev', out)"
      using b Continue x c by (subst create_loop_v1.simps) simp
    with ih nc show ?thesis by simp
  qed
qed

section \<open>The review loop of the second variant\<close>

subsection \<open>The choice\<close>

lemma loop_choice_v2_eof: "loop_choice_v2 lib s st [] = ([], Break (Crashed EOFError))"
  by (simp add: loop_choice_v2_def Let_def)

lemma loop_choice_v2_accept:
  assumes "upper lib (strip line) = ''A''"
  shows "loop_choice_v2 lib s (r, n) (line # rest) =
           (case formatted_message r of
              JStr message \<Rightarrow>
                if CHR 0x00 \<in> set message then ([], Break (Crashed ValueError))
                else ([Run [''git'', ''commit'', ''-m'', message],
                       Notice (if git_ok s message then CommitCreated else ErrorCreatingCommit)],
                      Break (if git_ok s message then Committed else CommitFailed))
            | _ \<Rightarrow> ([], Break (Crashed TypeError)))"
  using assms by (simp add: loop_choice_v2_def Let_def split: json.split)

lemma loop_choice_v2_regenerate:
  assumes "upper lib (strip line) = ''R''"
  shows "loop_choice_v2 lib s (r, n) (line # rest) = ([], Continue (r, n, rest))"
  using assms by (simp add: loop_choice_v2_def Let_def)

lemma loop_choice_v2_previous:
  assumes "upper lib (strip line) = ''P''" and "current_index r > 0"
  shows "loop_choice_v2 lib s (r, n) (line # rest) =
           (case getitem (message_history r ! nat (current_index r - 1)) ''formatted'' of
              Inl e \<Rightarrow> ([], Break (Crashed e))
            | Inr f \<Rightarrow> ([], Continue (r\<lparr>current_index := current_index r - 1,
                                         formatted_message := f\<rparr>, n, rest)))"
  using assms by (simp add: loop_choice_v2_def Let_def split: sum.split)

lemma loop_choice_v2_next:
  assumes "upper lib (strip line) = ''N''"
    and "current_index r < int (length (message_history r)) - 1"
  shows "loop_choice_v2 lib s (r, n) (line # rest) =
           (case getitem (message_history r ! nat (current_index r + 1)) ''formatted'' of
              Inl e \<Rightarrow> ([], Break (Crashed e))
            | Inr f \<Rightarrow> ([], Continue (r\<lparr>current_index := current_index r + 1,
                                         formatted_message := f\<rparr>, n, rest)))"
  using assms by (simp add: loop_choice_v2_def Let_def split: sum.split)

lemma loop_choice_v2_edit:
  assumes "upper lib (strip line) = ''E''"
  shows "loop_choice_v2 lib s (r, n) (line # rest) =
           (case edit_fields (message_history r ! nat (current_index r)) rest of
              Inl e \<Rightarrow> ([Notice Editing], Break (Crashed e))
            | Inr (edited_data, rest') \<Rightarrow>
                ([Notice Editing],
                 Continue (r\<lparr>message_history :=
                               (if current_index r < int (length (message_history r)) - 1
                                then take (nat (current_index r + 1)) (message_history r)
                                else message_history r) @ [edited_data],
                             current_index :=
                               int (length
                                 (if current_index r < int (length (message_history r)) - 1
                                  then take (nat (current_index r + 1)) (message_history r)
                                  else message_history r))\<rparr>,
                           n, rest')))"
  using assms by (simp add: loop_choice_v2_def Let_def split: sum.split prod.split)

lemma loop_choice_v2_cancel:
  assumes "upper lib (strip line) = ''C''"
  shows "loop_choice_v2 lib s (r, n) (line # rest) = ([Notice CommitCancelled], Break Cancelled)"
  using assms by (simp add: loop_choice_v2_def Let_def)

lemma loop_choice_v2_other:
  assumes "upper lib (strip line) \<noteq> ''A''" "upper lib (strip line) \<noteq> ''R''"
    "\<not> (upper lib (strip line) = ''P'' \<and> current_index r > 0)"
    "\<not> (upper lib (strip line) = ''N'' \<and> current_index r < int (length (message_history r)) - 1)"
    "upper lib (strip line) \<noteq> ''E''" "upper lib (strip line) \<noteq> ''C''"
  shows "loop_choice_v2 lib s (r, n) (line # rest) = ([Notice InvalidOption], Continue (r, n, rest))"
  using assms by (simp add: loop_choice_v2_def Let_def) blast

text \<open>The edit branch raises nothing but what its six fields raise.\<close>

lemma edit_field_raises:
  "edit_field d k inp = Inl e \<Longrightarrow> e = EOFError \<or> e = KeyError k"
  by (auto simp: edit_field_def getitem_def split: sum.splits list.splits option.splits)

lemma edit_body_raises:
  "edit_body d inp = Inl e \<Longrightarrow> e = EOFError \<or> e = AttributeError \<or> e = KeyError ''body''"
  by (auto simp: edit_body_def getitem_def split: sum.splits list.splits option.splits json.splits)

lemma edit_fields_raises:
  assumes "edit_fields d inp = Inl e"
  shows "e \<noteq> TypeError \<and> e \<noteq> ValueError"
  using assms
  by (auto simp: edit_fields_def split: sum.splits prod.splits
      dest!: edit_field_raises edit_body_raises)

lemma loop_choice_v2_flow:
  "(list_ex is_git_commit (fst (loop_choice_v2 lib s st (line # rest))) \<longleftrightarrow>
      upper lib (strip line) = ''A''
      \<and> (case formatted_message (fst st) of JStr message \<Rightarrow> CHR 0x00 \<notin> set message | _ \<Rightarrow> False))
   \<and> (\<forall>x. snd (loop_choice_v2 lib s st (line # rest)) = Continue x \<longrightarrow>
          upper lib (strip line) \<noteq> ''A'')
   \<and> (\<forall>out. snd (loop_choice_v2 lib s st (line # rest)) = Break out \<longrightarrow>
          (list_ex is_git_commit (fst (loop_choice_v2 lib s st (line # rest)))
             \<longleftrightarrow> out = Committed \<or> out = CommitFailed))"
proof -
  obtain r n where st: "st = (r, n)" by (cases st)
  consider "upper lib (strip line) = ''A''" | "upper lib (strip line) = ''R''"
    | "upper lib (strip line) = ''P''" "current_index r > 0"
    | "upper lib (strip line) = ''N''" "current_index r < int (length (message_history r)) - 1"
    | "upper lib (strip line) = ''E''" | "upper lib (strip line) = ''C''"
    | "upper lib (strip line) \<noteq> ''A''" "upper lib (strip line) \<noteq> ''R''"
      "\<not> (upper lib (strip line) = ''P'' \<and> current_index r > 0)"
      "\<not> (upper lib (strip line) = ''N'' \<and> current_index r < int (length (message_history r)) - 1)"
      "upper lib (strip line) \<noteq> ''E''" "upper lib (strip line) \<noteq> ''C''"
    by blast
  then show ?thesis
  proof cases
    case 1
    then show ?thesis unfolding st by (simp add: loop_choice_v2_accept split: json.split)
  next
    case 2
    then show ?thesis unfolding st by (simp add: loop_choice_v2_regenerate)
  next
    case 3
    then show ?thesis unfolding st by (simp add: loop_choice_v2_previous split: sum.split)
  next
    case 4
    then show ?thesis unfolding st by (simp add: loop_choice_v2_next split: sum.split)
  next
    case 5
    then show ?thesis unfolding st
      by (simp add: loop_choice_v2_edit split: sum.split prod.split)
  next
    case 6
    then show ?thesis unfolding st by (simp add: loop_choice_v2_cancel)
  next
    case 7
    then show ?thesis unfolding st by (simp add: loop_choice_v2_other)
  qed
qed

subsection \<open>The draft on display\<close>

lemma getitem_get: "getitem d k = Inr v \<Longrightarrow> get d k = v"
  by (simp add: getitem_def get_def split: option.splits)

lemma getitem_nonempty: "getitem d k = Inr v \<Longrightarrow> d \<noteq> []"
  by (auto simp: getitem_def)

text \<open>A draft whose six fields are strings: what is shown, and what would be committed.\<close>

lemma assemble_strings:
  assumes "getitem d ''type'' = Inr (JStr ty)" and "getitem d ''scope'' = Inr (JStr sc)"
    and "getitem d ''subject'' = Inr (JStr su)" and "getitem d ''body'' = Inr (JStr bo)"
    and "getitem d ''breaking'' = Inr (JStr br)" and "getitem d ''footer'' = Inr (JStr fo)"
  shows "assemble lib d =
           ([ty @ (if sc \<noteq> [] then ''('' @ sc @ '')'' else []) @ '': '' @ su]
            @ (if bo \<noteq> [] then [''\<newline>'' @ bo] else [])
            @ (if br \<noteq> [] \<or> fo \<noteq> []
               then [(if br \<noteq> [] then ''\<newline>\<newline>BREAKING CHANGE: '' @ br else [])
                     @ (if fo \<noteq> [] then ''\<newline>\<newline>'' @ fo else [])]
               else []),
            Inr (JStr (ty @ (if sc \<noteq> [] then ''('' @ sc @ '')'' else []) @ '': '' @ su
                       @ (if bo \<noteq> [] then ''\<newline>\<newline>'' @ bo else [])
                       @ (if br \<noteq> [] then ''\<newline>\<newline>BREAKING CHANGE: '' @ br else [])
                       @ (if fo \<noteq> [] then ''\<newline>\<newline>'' @ fo else [])),
                 d))"
proof -
  have h: "header_of lib d =
      Inr (JStr (ty @ (if sc \<noteq> [] then ''('' @ sc @ '')'' else []) @ '': '' @ su))"
    by (simp add: header_of_def assms iadd_def to_str_def)
  have m: "message_of (JStr hd') (JStr bo) (JStr br) (JStr fo) =
      Inr (JStr (hd' @ (if bo \<noteq> [] then ''\<newline>\<newline>'' @ bo else [])
                 @ (if br \<noteq> [] then ''\<newline>\<newline>BREAKING CHANGE: '' @ br else [])
                 @ (if fo \<noteq> [] then ''\<newline>\<newline>'' @ fo else [])))" for hd'
    by (simp add: message_of_def iadd_def concat_str_def)
  show ?thesis
    unfolding assemble_def h sum.case Let_def assms m
    by (simp add: to_str_def concat_str_def)
qed

lemma no_commit_in_prints: "\<not> list_ex is_git_commit (map Print xs)"
  by (simp add: list_ex_iff image_iff)

lemma loop_top_v2_no_commit: "\<not> list_ex is_git_commit (fst (loop_top_v2 lib s st))"
  by (simp add: loop_top_v2_def Let_def no_commit_in_prints split: prod.split sum.split)

lemma loop_top_v2_break:
  "loop_top_v2 lib s st = (ev, Break out) \<Longrightarrow> out \<noteq> Committed \<and> out \<noteq> CommitFailed"
  by (auto simp: loop_top_v2_def Let_def split: prod.splits sum.splits if_splits)

lemma loop_top_v2_failed:
  assumes "\<not> truthy (get (fst (generate_commit_message_v2 lib n (api_key s) (diff s) (lang s)))
                       ''subject'')"
  shows "loop_top_v2 lib s (r, n) =
           ([Notice Generating, Notice FailedToGenerate], Break GenerationFailed)"
proof -
  obtain cd n' where g: "generate_commit_message_v2 lib n (api_key s) (diff s) (lang s) = (cd, n')"
    by (cases "generate_commit_message_v2 lib n (api_key s) (diff s) (lang s)")
  with assms have "\<not> truthy (get cd ''subject'')" by simp
  then show ?thesis by (simp add: loop_top_v2_def Let_def g)
qed

lemma loop_top_v2_strings:
  assumes g: "generate_commit_message_v2 lib n (api_key s) (diff s) (lang s) = (d, n')"
    and f: "getitem d ''type'' = Inr (JStr ty)" "getitem d ''scope'' = Inr (JStr sc)"
      "getitem d ''subject'' = Inr (JStr su)" "getitem d ''body'' = Inr (JStr bo)"
      "getitem d ''breaking'' = Inr (JStr br)" "getitem d ''footer'' = Inr (JStr fo)"
    and su: "su \<noteq> []"
    and inv: "0 \<le> current_index r \<or> message_history r = []"
  shows "loop_top_v2 lib s (r, n) =
           ([Notice Generating,
             Print (ty @ (if sc \<noteq> [] then ''('' @ sc @ '')'' else []) @ '': '' @ su)]
            @ (if bo \<noteq> [] then [Print (''\<newline>'' @ bo)] else [])
            @ (if br \<noteq> [] \<or> fo \<noteq> []
               then [Print ((if br \<noteq> [] then ''\<newline>\<newline>BREAKING CHANGE: '' @ br else [])
                            @ (if fo \<noteq> [] then ''\<newline>\<newline>'' @ fo else []))]
               else [])
            @ [Notice (OptionsNav
                 (0 < length (if current_index r < int (length (message_history r)) - 1
                              then take (nat (current_index r + 1)) (message_history r)
                              else message_history r))
                 False)],
            Continue
              (r\<lparr>message_history :=
                   (if current_index r < int (length (message_history r)) - 1
                    then take (nat (current_index r + 1)) (message_history r)
                    else message_history r) @ [d],
                 current_index :=
                   int (length (if current_index r < int (length (message_history r)) - 1
                                then take (nat (current_index r + 1)) (message_history r)
                                else message_history r)),
                 formatted_message :=
                   JStr (ty @ (if sc \<noteq> [] then ''('' @ sc @ '')'' else []) @ '': '' @ su
                         @ (if bo \<noteq> [] then ''\<newline>\<newline>'' @ bo else [])
                         @ (if br \<noteq> [] then ''\<newline>\<newline>BREAKING CHANGE: '' @ br else [])
                         @ (if fo \<noteq> [] then ''\<newline>\<newline>'' @ fo else []))\<rparr>,
               n'))"
proof -
  define H where "H = (if current_index r < int (length (message_history r)) - 1
                       then take (nat (current_index r + 1)) (message_history r)
                       else message_history r)"
  have ne: "d \<noteq> []" using f(1) by (rule getitem_nonempty)
  have t: "truthy (get d ''subject'')" using getitem_get [OF f(3)] su by simp
  note a = assemble_strings [of d ty sc su bo br fo lib, OF f]
  from inv consider (empty) "current_index r < 0" "message_history r = []"
    | (valid) "0 \<le> current_index r" by fastforce
  then show ?thesis
  proof cases
    case empty
    then have H: "H = []" by (simp add: H_def)
    show ?thesis
      unfolding H_def [symmetric] H
      using empty ne t by (simp add: loop_top_v2_def Let_def g a)
  next
    case valid
    then have nn: "\<not> current_index r < 0" by simp
    show ?thesis
      unfolding H_def [symmetric]
      using nn ne t
      by (simp add: loop_top_v2_def Let_def g a H_def [symmetric] nth_append)
  qed
qed

subsection \<open>The drafts of the generator hold the six fields\<close>

lemma setdefault_keeps: "map_of d k \<noteq> None \<Longrightarrow> map_of (setdefault d k' v) k \<noteq> None"
  by (auto simp: setdefault_def)

lemma setdefault_adds: "map_of (setdefault d k v) k \<noteq> None"
  by (simp add: setdefault_def map_add_def)

lemma make_commit_data_complete:
  "find (\<lambda>k. map_of (make_commit_data a b c d e f) k = None)
     [''type'', ''scope'', ''subject'', ''body'', ''breaking'', ''footer''] = None"
  by (simp add: make_commit_data_def)

lemma parse_response_complete:
  assumes "parse_response lib c = Inr d"
  shows "find (\<lambda>k. map_of d k = None)
     [''type'', ''scope'', ''subject'', ''body'', ''breaking'', ''footer''] = None"
proof -
  have fb: "find (\<lambda>k. map_of (fallback_parse x) k = None)
     [''type'', ''scope'', ''subject'', ''body'', ''breaking'', ''footer''] = None" for x
    unfolding fallback_parse_def Let_def
    by (simp only: split_beta make_commit_data_complete)
  have sd: "find (\<lambda>k. map_of (foldl (\<lambda>d k. setdefault d k (JStr [])) d0
               [''type'', ''scope'', ''subject'', ''body'', ''breaking'', ''footer'']) k = None)
     [''type'', ''scope'', ''subject'', ''body'', ''breaking'', ''footer''] = None" for d0
    by (simp add: setdefault_keeps setdefault_adds)
  from assms have "(\<exists>x. d = fallback_parse x)
      \<or> (\<exists>d0. d = foldl (\<lambda>d k. setdefault d k (JStr [])) d0
                      [''type'', ''scope'', ''subject'', ''body'', ''breaking'', ''footer''])"
    unfolding parse_response_def Let_def
    by (auto split: if_splits sum.splits exn.splits)
  then show ?thesis
  proof (elim disjE exE)
    fix x assume "d = fallback_parse x"
    then show ?thesis by (simp only: fb)
  next
    fix d0
    assume "d = foldl (\<lambda>d k. setdefault d k (JStr [])) d0
                  [''type'', ''scope'', ''subject'', ''body'', ''breaking'', ''footer'']"
    then show ?thesis by (simp only: sd)
  qed
qed

lemma generate_v2_shape:
  "(\<exists>a b c d' e f. fst (generate_commit_message_v2 lib n key d lg) = make_commit_data a b c d' e f)
   \<or> (\<exists>c. parse_response lib c = Inr (fst (generate_commit_message_v2 lib n key d lg)))"
  by (simp add: generate_commit_message_v2_def split: prod.split post_outcome.split sum.split)
     blast

lemma generate_v2_complete:
  "find (\<lambda>k. map_of (fst (generate_commit_message_v2 lib n key d lg)) k = None)
     [''type'', ''scope'', ''subject'', ''body'', ''breaking'', ''footer''] = None"
  using generate_v2_shape [of lib n key d lg]
proof (elim disjE exE)
  fix a b c d' e f
  assume "fst (generate_commit_message_v2 lib n key d lg) = make_commit_data a b c d' e f"
  then show ?thesis by (simp only: make_commit_data_complete)
next
  fix c
  assume "parse_response lib c = Inr (fst (generate_commit_message_v2 lib n key d lg))"
  then show ?thesis by (rule parse_response_complete)
qed

text \<open>On such a draft the display raises nothing but \<open>TypeError\<close>.\<close>

lemma iadd_raises: "iadd x s = Inl e \<Longrightarrow> e = TypeError"
  by (auto simp: iadd_def split: json.splits)

lemma concat_str_raises: "concat_str s v = Inl e \<Longrightarrow> e = TypeError"
  by (auto simp: concat_str_def split: json.splits)

lemma message_of_raises: "message_of h b br f = Inl e \<Longrightarrow> e = TypeError"
  by (auto simp: message_of_def split: sum.splits if_splits dest: iadd_raises concat_str_raises)

lemma complete_getitem:
  assumes "find (\<lambda>k. map_of d k = None)
     [''type'', ''scope'', ''subject'', ''body'', ''breaking'', ''footer''] = None"
  shows "\<exists>v1 v2 v3 v4 v5 v6.
           getitem d ''type'' = Inr v1 \<and> getitem d ''scope'' = Inr v2
         \<and> getitem d ''subject'' = Inr v3 \<and> getitem d ''body'' = Inr v4
         \<and> getitem d ''breaking'' = Inr v5 \<and> getitem d ''footer'' = Inr v6"
proof -
  from assms have "\<forall>k \<in> set [''type'', ''scope'', ''subject'', ''body'', ''breaking'', ''footer''].
      map_of d k \<noteq> None"
    unfolding find_None_iff by meson
  then show ?thesis by (auto simp: getitem_def)
qed

lemma header_of_raises:
  assumes "getitem d ''type'' = Inr v1" "getitem d ''scope'' = Inr v2"
    "getitem d ''subject'' = Inr v3" and "header_of lib d = Inl e"
  shows "e = TypeError"
  using assms
  by (auto simp: header_of_def split: sum.splits if_splits dest: iadd_raises)

lemma assemble_raises:
  assumes "find (\<lambda>k. map_of d k = None)
     [''type'', ''scope'', ''subject'', ''body'', ''breaking'', ''footer''] = None"
    and "assemble lib d = (printed, Inl e)"
  shows "e = TypeError"
proof -
  from complete_getitem [OF assms(1)] obtain v1 v2 v3 v4 v5 v6 where
    g: "getitem d ''type'' = Inr v1" "getitem d ''scope'' = Inr v2"
       "getitem d ''subject'' = Inr v3" "getitem d ''body'' = Inr v4"
       "getitem d ''breaking'' = Inr v5" "getitem d ''footer'' = Inr v6"
    by blast
  show ?thesis
  proof (cases "header_of lib d")
    case (Inl e')
    with assms(2) have "e' = e" by (simp add: assemble_def)
    with Inl header_of_raises [OF g(1,2,3)] show ?thesis by blast
  next
    case (Inr h)
    with assms(2) show ?thesis
      unfolding assemble_def Let_def g sum.case
      by (auto split: sum.splits if_splits dest: concat_str_raises message_of_raises)
  qed
qed

lemma loop_top_v2_outcome:
  assumes "0 \<le> current_index r \<or> message_history r = []"
  shows "(\<exists>r'. snd (loop_top_v2 lib s (r, n)) =
            Continue (r', snd (generate_commit_message_v2 lib n (api_key s) (diff s) (lang s))))
       \<or> snd (loop_top_v2 lib s (r, n)) = Break GenerationFailed
       \<or> snd (loop_top_v2 lib s (r, n)) = Break (Crashed TypeError)"
proof -
  obtain cd m where g: "generate_commit_message_v2 lib n (api_key s) (diff s) (lang s) = (cd, m)"
    by (cases "generate_commit_message_v2 lib n (api_key s) (diff s) (lang s)")
  have c: "find (\<lambda>k. map_of cd k = None)
     [''type'', ''scope'', ''subject'', ''body'', ''breaking'', ''footer''] = None"
    using generate_v2_complete [of lib n "api_key s" "diff s" "lang s"] unfolding g fst_conv .
  obtain p res where a: "assemble lib cd = (p, res)" by (cases "assemble lib cd")
  have res: "res = Inl TypeError \<or> (\<exists>x. res = Inr x)"
    using assemble_raises [OF c, of lib p] a by (cases res) auto
  from assms consider (empty) "current_index r < 0" "message_history r = []"
    | (valid) "0 \<le> current_index r" by fastforce
  then show ?thesis
  proof cases
    case empty
    then show ?thesis using a res
      by (auto simp: loop_top_v2_def Let_def g split: sum.splits)
  next
    case valid
    then show ?thesis using a res
      by (auto simp: loop_top_v2_def Let_def g nth_append split: sum.splits)
  qed
qed

subsection \<open>A run holds a commit exactly when it ends with one\<close>

lemma loop_choice_v2_result:
  assumes "loop_choice_v2 lib s st1 stdin = (ev1, fl1)"
  shows "(\<forall>x. fl1 = Continue x \<longrightarrow> \<not> list_ex is_git_commit ev1)
       \<and> (\<forall>out. fl1 = Break out \<longrightarrow>
             (list_ex is_git_commit ev1 \<longleftrightarrow> out = Committed \<or> out = CommitFailed))"
proof (cases stdin)
  case Nil
  with assms show ?thesis by (auto simp: loop_choice_v2_eof)
next
  case (Cons line rest)
  with assms have e: "fst (loop_choice_v2 lib s st1 (line # rest)) = ev1"
    and f: "snd (loop_choice_v2 lib s st1 (line # rest)) = fl1" by simp_all
  from loop_choice_v2_flow [of lib s st1 line rest] show ?thesis
    unfolding e f by blast
qed

lemma create_loop_v2_commits:
  "list_ex is_git_commit (fst (create_loop_v2 lib s st stdin)) \<longleftrightarrow>
     snd (create_loop_v2 lib s st stdin) = Committed
     \<or> snd (create_loop_v2 lib s st stdin) = CommitFailed"
proof (induction lib s st stdin rule: create_loop_v2.induct)
  case (1 lib s st stdin)
  obtain ev fl where t: "loop_top_v2 lib s st = (ev, fl)" by (cases "loop_top_v2 lib s st")
  have nt: "\<not> list_ex is_git_commit ev"
    using loop_top_v2_no_commit [of lib s st] t by simp
  show ?case
  proof (cases fl)
    case (Break out)
    with t have "create_loop_v2 lib s st stdin = (ev, out)"
      by (subst create_loop_v2.simps) simp
    with nt loop_top_v2_break [of lib s st ev out] t Break show ?thesis by simp
  next
    case top: (Continue st1)
    obtain ev1 fl1 where c: "loop_choice_v2 lib s st1 stdin = (ev1, fl1)"
      by (cases "loop_choice_v2 lib s st1 stdin")
    note res = loop_choice_v2_result [OF c]
    show ?thesis
    proof (cases fl1)
      case (Break out)
      have run: "create_loop_v2 lib s st stdin = (ev @ ev1, out)"
        using t top c Break by (subst create_loop_v2.simps) simp
      from res Break have "list_ex is_git_commit ev1 \<longleftrightarrow> out = Committed \<or> out = CommitFailed"
        by blast
      with nt run show ?thesis by simp
    next
      case (Continue x)
      obtain r' n' rest where x: "x = (r', n', rest)" by (cases x)
      obtain ev2 out where d: "create_loop_v2 lib s (r', n') rest = (ev2, out)"
        by (cases "create_loop_v2 lib s (r', n') rest")
      have ih: "list_ex is_git_commit ev2 \<longleftrightarrow> out = Committed \<or> out = CommitFailed"
        using "1.IH" [OF t [symmetric] top c [symmetric] Continue x [symmetric] refl] d by simp
      from res Continue have nc: "\<not> list_ex is_git_commit ev1" by blast
      have "create_loop_v2 lib s st stdin = (ev @ ev1 @ ev2, out)"
        using t top c Continue x d by (subst create_loop_v2.simps) simp
      with ih nt nc show ?thesis by simp
    qed
  qed
qed

text \<open>An iteration that ends in its second half: the events of both halves, in order.\<close>

lemma create_loop_v2_ends:
  assumes "loop_top_v2 lib s st = (ev, Continue st1)"
    and "loop_choice_v2 lib s st1 stdin = (ev1, Break out)"
  shows "create_loop_v2 lib s st stdin = (ev @ ev1, out)"
  using assms by (subst create_loop_v2.simps) simp

section \<open>The stubbed reply\<close>

lemma stub_reply_json:
  "strip (strip_chars [CHR 0x22, CHR 0x27] stub_reply) = stub_reply"
  "find_char CHR ''{'' stub_reply = 0"
  "rfind_char CHR ''}'' stub_reply = 86"
  "slice stub_reply 0 87 = stub_reply"
  by code_simp+

lemma parse_stub_reply:
  assumes "json_loads lib stub_reply =
             Inr (make_commit_data (JStr ''fix'') (JStr ''core'') (JStr ''Fix crash'')
                    (JStr []) (JStr []) (JStr []))"
  shows "parse_response lib stub_reply =
           Inr (make_commit_data (JStr ''fix'') (JStr ''core'') (JStr ''Fix crash'')
                  (JStr []) (JStr []) (JStr []))"
  unfolding parse_response_def Let_def stub_reply_json
  by (simp add: assms stub_reply_json) (simp add: make_commit_data_def setdefault_def)

lemma make_commit_data_getitem:
  "getitem (make_commit_data a b c d e f) ''type'' = Inr a"
  "getitem (make_commit_data a b c d e f) ''scope'' = Inr b"
  "getitem (make_commit_data a b c d e f) ''subject'' = Inr c"
  "getitem (make_commit_data a b c d e f) ''body'' = Inr d"
  "getitem (make_commit_data a b c d e f) ''breaking'' = Inr e"
  "getitem (make_commit_data a b c d e f) ''footer'' = Inr f"
  by (simp_all add: make_commit_data_def getitem_def)

lemma assemble_header_only:
  "assemble lib (make_commit_data (JStr ty) (JStr sc) (JStr su) (JStr []) (JStr []) (JStr [])) =
     ([if sc \<noteq> [] then ty @ ''('' @ sc @ ''): '' @ su else ty @ '': '' @ su],
      Inr (JStr (if sc \<noteq> [] then ty @ ''('' @ sc @ ''): '' @ su else ty @ '': '' @ su),
           make_commit_data (JStr ty) (JStr sc) (JStr su) (JStr []) (JStr []) (JStr [])))"
  by (simp add: assemble_strings [OF make_commit_data_getitem])

text \<open>
  Claim C3. When the reply is the JSON object of the example, which \<open>json.loads\<close> turns
  into the dictionary of its six members, the parser returns that dictionary and the
  message assembled from its fields is the single line \<open>fix(core): Fix crash\<close>; that
  line is shown, and it is the message committed when the user accepts. With an empty
  body, breaking text and footer the message is the header alone:
  \<open>type(scope): subject\<close>, or \<open>type: subject\<close> when the scope is empty.
\<close>
theorem stub_reply_message:
  assumes "json_loads lib stub_reply =
             Inr (make_commit_data (JStr ''fix'') (JStr ''core'') (JStr ''Fix crash'')
                    (JStr []) (JStr []) (JStr []))"
  shows "parse_response lib stub_reply =
           Inr (make_commit_data (JStr ''fix'') (JStr ''core'') (JStr ''Fix crash'')
                  (JStr []) (JStr []) (JStr []))
       \<and> assemble lib (make_commit_data (JStr ''fix'') (JStr ''core'') (JStr ''Fix crash'')
                         (JStr []) (JStr []) (JStr [])) =
           ([''fix(core): Fix crash''],
            Inr (JStr ''fix(core): Fix crash'',
                 make_commit_data (JStr ''fix'') (JStr ''core'') (JStr ''Fix crash'')
                   (JStr []) (JStr []) (JStr [])))
       \<and> assemble lib (make_commit_data (JStr ty) (JStr sc) (JStr su) (JStr []) (JStr [])
                         (JStr [])) =
           ([if sc \<noteq> [] then ty @ ''('' @ sc @ ''): '' @ su else ty @ '': '' @ su],
            Inr (JStr (if sc \<noteq> [] then ty @ ''('' @ sc @ ''): '' @ su else ty @ '': '' @ su),
                 make_commit_data (JStr ty) (JStr sc) (JStr su) (JStr []) (JStr []) (JStr [])))
       \<and> (diff s \<noteq> [] \<and> replies n (posts n) = Content stub_reply
            \<and> upper lib (strip line) = ''A'' \<longrightarrow>
            create_new_commit_v2 lib s n (line # rest) =
              (stage_changes None True
               @ [Notice Generating, Print ''fix(core): Fix crash'', Notice (OptionsNav False False),
                  Run [''git'', ''commit'', ''-m'', ''fix(core): Fix crash''],
                  Notice (if git_ok s ''fix(core): Fix crash'' then CommitCreated
                          else ErrorCreatingCommit)],
               if git_ok s ''fix(core): Fix crash'' then Committed else CommitFailed))"
proof (intro conjI impI)
  show "parse_response lib stub_reply =
      Inr (make_commit_data (JStr ''fix'') (JStr ''core'') (JStr ''Fix crash'')
             (JStr []) (JStr []) (JStr []))"
    using assms by (rule parse_stub_reply)
  show "assemble lib (make_commit_data (JStr ''fix'') (JStr ''core'') (JStr ''Fix crash'')
                         (JStr []) (JStr []) (JStr [])) =
           ([''fix(core): Fix crash''],
            Inr (JStr ''fix(core): Fix crash'',
                 make_commit_data (JStr ''fix'') (JStr ''core'') (JStr ''Fix crash'')
                   (JStr []) (JStr []) (JStr [])))"
    by (simp add: assemble_header_only)
  show "assemble lib (make_commit_data (JStr ty) (JStr sc) (JStr su) (JStr []) (JStr [])
                         (JStr [])) =
           ([if sc \<noteq> [] then ty @ ''('' @ sc @ ''): '' @ su else ty @ '': '' @ su],
            Inr (JStr (if sc \<noteq> [] then ty @ ''('' @ sc @ ''): '' @ su else ty @ '': '' @ su),
                 make_commit_data (JStr ty) (JStr sc) (JStr su) (JStr []) (JStr []) (JStr [])))"
    by (rule assemble_header_only)
  assume h: "diff s \<noteq> [] \<and> replies n (posts n) = Content stub_reply
             \<and> upper lib (strip line) = ''A''"
  define d where "d = make_commit_data (JStr ''fix'') (JStr ''core'') (JStr ''Fix crash'')
                        (JStr []) (JStr []) (JStr [])"
  define r0 :: "(json, commit_data) review"
    where "r0 = \<lparr>formatted_message = JNull, message_history = [], current_index = - 1\<rparr>"
  have g: "generate_commit_message_v2 lib n (api_key s) (diff s) (lang s) =
      (d, n\<lparr>posts := Suc (posts n)\<rparr>)"
    using h by (simp add: generate_commit_message_v2_def post_def d_def
        parse_stub_reply [of lib, OF assms])
  have top: "loop_top_v2 lib s (r0, n) =
      ([Notice Generating, Print ''fix(core): Fix crash'', Notice (OptionsNav False False)],
       Continue (r0\<lparr>message_history := [d], current_index := 0,
                    formatted_message := JStr ''fix(core): Fix crash''\<rparr>,
                 n\<lparr>posts := Suc (posts n)\<rparr>))"
    using loop_top_v2_strings [of lib n s d _ "''fix''" "''core''" "''Fix crash''" "[]" "[]" "[]" r0,
        OF g]
    by (simp add: d_def make_commit_data_getitem) (simp add: r0_def)
  have up: "upper lib (strip line) = ''A''" using h by simp
  have ch: "loop_choice_v2 lib s
      (r0\<lparr>message_history := [d], current_index := 0,
          formatted_message := JStr ''fix(core): Fix crash''\<rparr>,
       n\<lparr>posts := Suc (posts n)\<rparr>) (line # rest) =
      ([Run [''git'', ''commit'', ''-m'', ''fix(core): Fix crash''],
        Notice (if git_ok s ''fix(core): Fix crash'' then CommitCreated else ErrorCreatingCommit)],
       Break (if git_ok s ''fix(core): Fix crash'' then Committed else CommitFailed))"
    by (simp add: loop_choice_v2_accept [OF up])
  show "create_new_commit_v2 lib s n (line # rest) =
      (stage_changes None True
       @ [Notice Generating, Print ''fix(core): Fix crash'', Notice (OptionsNav False False),
          Run [''git'', ''commit'', ''-m'', ''fix(core): Fix crash''],
          Notice (if git_ok s ''fix(core): Fix crash'' then CommitCreated
                  else ErrorCreatingCommit)],
       if git_ok s ''fix(core): Fix crash'' then Committed else CommitFailed)"
    using h unfolding create_new_commit_v2_def r0_def [symmetric]
    by (simp add: create_loop_v2_ends [OF top ch])
qed

theorem stub_reply_message_witness:
  "json_loads stub_library stub_reply =
     Inr (make_commit_data (JStr ''fix'') (JStr ''core'') (JStr ''Fix crash'')
            (JStr []) (JStr []) (JStr []))
   \<and> parse_response stub_library stub_reply =
       Inr (make_commit_data (JStr ''fix'') (JStr ''core'') (JStr ''Fix crash'')
              (JStr []) (JStr []) (JStr []))
   \<and> assemble stub_library (make_commit_data (JStr ''fix'') (JStr ''core'') (JStr ''Fix crash'')
                              (JStr []) (JStr []) (JStr [])) =
       ([''fix(core): Fix crash''],
        Inr (JStr ''fix(core): Fix crash'',
             make_commit_data (JStr ''fix'') (JStr ''core'') (JStr ''Fix crash'')
               (JStr []) (JStr []) (JStr [])))
   \<and> diff stub_session \<noteq> []
   \<and> replies stub_net_fail (posts stub_net_fail) = Content stub_reply
   \<and> upper stub_library (strip ''A'') = ''A''
   \<and> create_new_commit_v2 stub_library stub_session stub_net_fail [''A''] =
       ([Run [''git'', ''add'', ''.''], Notice AllStaged, Notice CommandsExecuted,
         Print ''$ git add .'', Notice Generating, Print ''fix(core): Fix crash'',
         Notice (OptionsNav False False),
         Run [''git'', ''commit'', ''-m'', ''fix(core): Fix crash''], Notice CommitCreated],
        Committed)"
proof -
  have h: "json_loads stub_library stub_reply =
      Inr (make_commit_data (JStr ''fix'') (JStr ''core'') (JStr ''Fix crash'')
             (JStr []) (JStr []) (JStr []))"
    by code_simp
  have u: "upper stub_library (strip ''A'') = ''A''" by code_simp
  have d: "diff stub_session \<noteq> [] \<and> replies stub_net_fail (posts stub_net_fail) = Content stub_reply
      \<and> upper stub_library (strip ''A'') = ''A''"
    using u by (simp add: stub_session_def stub_net_fail_def)
  note t = stub_reply_message [of stub_library "''fix''" "''core''" "''Fix crash''"
      stub_session stub_net_fail "''A''" "[]", OF h]
  have ok: "git_ok stub_session ''fix(core): Fix crash''" by (simp add: stub_session_def)
  have st: "stage_changes None True = [Run [''git'', ''add'', ''.''], Notice AllStaged,
      Notice CommandsExecuted, Print ''$ git add .'']"
    by (simp add: stage_changes_def)
  note c1 = t [THEN conjunct1]
  note c2 = t [THEN conjunct2, THEN conjunct1]
  have c4: "create_new_commit_v2 stub_library stub_session stub_net_fail [''A''] =
      ([Run [''git'', ''add'', ''.''], Notice AllStaged, Notice CommandsExecuted,
         Print ''$ git add .'', Notice Generating, Print ''fix(core): Fix crash'',
         Notice (OptionsNav False False),
         Run [''git'', ''commit'', ''-m'', ''fix(core): Fix crash''], Notice CommitCreated],
        Committed)"
    using t [THEN conjunct2, THEN conjunct2, THEN conjunct2, THEN mp, OF d]
    unfolding st by (simp add: ok)
  show ?thesis using h c1 c2 d c4 by (intro conjI; blast)
qed

section \<open>Runs of the second variant\<close>

text \<open>
  Claim C8 as it was stated fails on the second variant: when the service times out on
  the regeneration, the choice \<open>r\<close> ends the loop, and the \<open>a\<close> typed next is not read.
\<close>
theorem regenerate_ends_loop_v2:
  "create_new_commit_v2 stub_library stub_session stub_net_fail [''r'', ''a''] =
     ([Run [''git'', ''add'', ''.''], Notice AllStaged, Notice CommandsExecuted,
       Print ''$ git add .'', Notice Generating, Print ''fix(core): Fix crash'',
       Notice (OptionsNav False False), Notice Generating, Notice FailedToGenerate],
      GenerationFailed)"
  by code_simp

text \<open>
  Claim C9. After a first draft, a regeneration and the choice \<open>p\<close>, the earlier draft
  should be shown again. The code looks up the key \<open>formatted\<close>, which the program
  never writes and neither draft holds, and the run ends with \<open>KeyError\<close>; the earlier
  draft has been shown only once.
\<close>
theorem previous_draft_key_error:
  "create_new_commit_v2 stub_library stub_session stub_net_two [''r'', ''p'', ''a''] =
     ([Run [''git'', ''add'', ''.''], Notice AllStaged, Notice CommandsExecuted,
       Print ''$ git add .'', Notice Generating, Print ''fix(core): Fix crash'',
       Notice (OptionsNav False False), Notice Generating, Print ''docs: Update readme'',
       Notice (OptionsNav True False)],
      Crashed (KeyError ''formatted''))"
  by code_simp

lemma previous_raises_key_error:
  assumes "upper lib (strip line) = ''P''" and "current_index r > 0"
    and "map_of (message_history r ! nat (current_index r - 1)) ''formatted'' = None"
  shows "loop_choice_v2 lib s (r, n) (line # rest) =
           ([], Break (Crashed (KeyError ''formatted'')))"
  using assms by (simp add: loop_choice_v2_previous getitem_def)

text \<open>The state after the first half of an iteration: the draft shown is the last one.\<close>

lemma loop_top_v2_index:
  assumes "loop_top_v2 lib s (r, n) = (ev, Continue (r', n'))"
    and "0 \<le> current_index r \<or> message_history r = []"
  shows "current_index r' = int (length (message_history r')) - 1 \<and> 0 \<le> current_index r'"
proof -
  obtain cd m where g: "generate_commit_message_v2 lib n (api_key s) (diff s) (lang s) = (cd, m)"
    by (cases "generate_commit_message_v2 lib n (api_key s) (diff s) (lang s)")
  from assms(2) consider (empty) "current_index r < 0" "message_history r = []"
    | (valid) "0 \<le> current_index r" by fastforce
  then show ?thesis
  proof cases
    case empty
    with assms(1) show ?thesis
      by (auto simp: loop_top_v2_def Let_def g split: if_splits sum.splits prod.splits)
  next
    case valid
    with assms(1) show ?thesis
      by (auto simp: loop_top_v2_def Let_def g split: if_splits sum.splits prod.splits)
  qed
qed

text \<open>
  A run starts with no draft and the index \<open>-1\<close>; after the first half of an iteration
  the index is that of the last draft, and the second half keeps it from falling below
  0. So at the top of every iteration either nothing is stored yet or the index is not
  negative.
\<close>

lemma loop_choice_v2_index:
  assumes "loop_choice_v2 lib s (r, n) stdin = (ev, Continue (r', n', rest))"
    and "0 \<le> current_index r"
  shows "0 \<le> current_index r'"
proof (cases stdin)
  case Nil
  with assms show ?thesis by (simp add: loop_choice_v2_def Let_def)
next
  case (Cons line more)
  with assms show ?thesis
    by (auto simp: loop_choice_v2_def Let_def
        split: if_splits sum.splits json.splits prod.splits)
qed

lemma next_never_offered:
  assumes "loop_top_v2 lib s (r, n) = (ev, Continue (r', n'))"
    and "0 \<le> current_index r \<or> message_history r = []"
    and "upper lib (strip line) = ''N''"
  shows "loop_choice_v2 lib s (r', n') (line # rest) =
           ([Notice InvalidOption], Continue (r', n', rest))"
proof -
  from loop_top_v2_index [OF assms(1,2)]
  have "current_index r' = int (length (message_history r')) - 1" by blast
  with assms(3) show ?thesis by (simp add: loop_choice_v2_other)
qed

text \<open>
  A reply whose type is \<open>null\<close>: the header cannot be built, and the run ends with
  \<open>TypeError\<close> before anything is shown.
\<close>

lemma null_type_crashes_v2:
  "create_new_commit_v2 stub_library stub_session stub_net_null [''a''] =
     ([Run [''git'', ''add'', ''.''], Notice AllStaged, Notice CommandsExecuted,
       Print ''$ git add .'', Notice Generating],
      Crashed TypeError)"
  by code_simp

section \<open>What the review loop does on each choice\<close>

lemma generate_v1_one_post:
  "diff s \<noteq> [] \<longrightarrow>
     posts (snd (generate_commit_message_v1 n (api_key s) (diff s) (commit_type s) (scope s) (lang s)))
       = Suc (posts n)
     \<and> posts (snd (generate_commit_message_v2 lib n (api_key s) (diff s) (lang s))) = Suc (posts n)"
  by (simp add: generate_commit_message_v1_def generate_commit_message_v2_def post_def
      split: post_outcome.split sum.split)

text \<open>
  The second variant on a draft whose six fields are strings: what the first half of the
  iteration shows and stores, and what an accept then commits.
\<close>

lemma review_strings_v2:
  assumes g: "generate_commit_message_v2 lib n (api_key s) (diff s) (lang s) = (d, n')"
    and f: "getitem d ''type'' = Inr (JStr ty)" "getitem d ''scope'' = Inr (JStr sc)"
      "getitem d ''subject'' = Inr (JStr su)" "getitem d ''body'' = Inr (JStr bo)"
      "getitem d ''breaking'' = Inr (JStr br)" "getitem d ''footer'' = Inr (JStr fo)"
    and su: "su \<noteq> []"
    and inv: "0 \<le> current_index r \<or> message_history r = []"
  shows "(let header = ty @ (if sc \<noteq> [] then ''('' @ sc @ '')'' else []) @ '': '' @ su;
              footer_text = (if br \<noteq> [] then ''\<newline>\<newline>BREAKING CHANGE: '' @ br else [])
                            @ (if fo \<noteq> [] then ''\<newline>\<newline>'' @ fo else []);
              message = header @ (if bo \<noteq> [] then ''\<newline>\<newline>'' @ bo else []) @ footer_text;
              history = (if current_index r < int (length (message_history r)) - 1
                         then take (nat (current_index r + 1)) (message_history r)
                         else message_history r);
              shown = [Notice Generating, Print header]
                      @ (if bo \<noteq> [] then [Print (''\<newline>'' @ bo)] else [])
                      @ (if footer_text \<noteq> [] then [Print footer_text] else [])
                      @ [Notice (OptionsNav (0 < length history) False)]
          in loop_top_v2 lib s (r, n) =
               (shown,
                Continue (r\<lparr>message_history := history @ [d],
                            current_index := int (length history),
                            formatted_message := JStr message\<rparr>, n'))
           \<and> (upper lib (strip line) = ''A'' \<and> CHR 0x00 \<notin> set message \<longrightarrow>
                create_loop_v2 lib s (r, n) (line # rest) =
                  (shown @ [Run [''git'', ''commit'', ''-m'', message],
                            Notice (if git_ok s message then CommitCreated
                                    else ErrorCreatingCommit)],
                   if git_ok s message then Committed else CommitFailed)))"
proof -
  define header where "header = ty @ (if sc \<noteq> [] then ''('' @ sc @ '')'' else []) @ '': '' @ su"
  define footer_text where
    "footer_text = (if br \<noteq> [] then ''\<newline>\<newline>BREAKING CHANGE: '' @ br else [])
                   @ (if fo \<noteq> [] then ''\<newline>\<newline>'' @ fo else [])"
  define message where
    "message = header @ (if bo \<noteq> [] then ''\<newline>\<newline>'' @ bo else []) @ footer_text"
  define history where
    "history = (if current_index r < int (length (message_history r)) - 1
                then take (nat (current_index r + 1)) (message_history r)
                else message_history r)"
  define shown where
    "shown = [Notice Generating, Print header]
             @ (if bo \<noteq> [] then [Print (''\<newline>'' @ bo)] else [])
             @ (if footer_text \<noteq> [] then [Print footer_text] else [])
             @ [Notice (OptionsNav (0 < length history) False)]"
  define r' where
    "r' = r\<lparr>message_history := history @ [d], current_index := int (length history),
            formatted_message := JStr message\<rparr>"
  have ft: "footer_text \<noteq> [] \<longleftrightarrow> br \<noteq> [] \<or> fo \<noteq> []" by (simp add: footer_text_def)
  have top: "loop_top_v2 lib s (r, n) = (shown, Continue (r', n'))"
    unfolding shown_def r'_def ft
    using loop_top_v2_strings [OF g f su inv]
    by (simp add: header_def footer_text_def message_def history_def)
  have run: "create_loop_v2 lib s (r, n) (line # rest) =
      (shown @ [Run [''git'', ''commit'', ''-m'', message],
                Notice (if git_ok s message then CommitCreated else ErrorCreatingCommit)],
       if git_ok s message then Committed else CommitFailed)"
    if a: "upper lib (strip line) = ''A''" and z: "CHR 0x00 \<notin> set message"
  proof -
    have ch: "loop_choice_v2 lib s (r', n') (line # rest) =
        ([Run [''git'', ''commit'', ''-m'', message],
          Notice (if git_ok s message then CommitCreated else ErrorCreatingCommit)],
         Break (if git_ok s message then Committed else CommitFailed))"
      using z by (simp add: loop_choice_v2_accept [OF a] r'_def)
    show ?thesis by (rule create_loop_v2_ends [OF top ch])
  qed
  show ?thesis
    unfolding Let_def header_def [symmetric] footer_text_def [symmetric]
      message_def [symmetric] history_def [symmetric] shown_def [symmetric]
    using top run unfolding r'_def by blast
qed

text \<open>
  Claim C8, as the code has it. In both variants \<open>git commit\<close> is started only in the
  step where the choice, stripped and in upper case, is \<open>A\<close>, and there only when the
  message is a string without the character NUL: that step commits the message on
  display and ends the loop, and a whole run holds a commit exactly when it ends as
  committed (or as a failed commit), so a run that is cancelled holds none. Cancel ends
  the loop. In the first variant regenerate calls the generator once and returns to
  reviewing, with the new message, or with the old one when the generator returns the
  empty string; edit replaces the message by the lines typed and returns to reviewing;
  any other choice returns to reviewing with nothing changed. In the second variant
  regenerate goes back to the top of the loop, where the generator is called once. When
  the subject of the new draft is empty the loop ends there without a commit. When the
  six fields of the new draft are strings and the subject is not empty, the draft is
  shown, the message built from it is the one an accept commits, and the loop is back
  in reviewing. Whatever the fields of the new draft are, the top of the loop starts no
  commit, and it ends in one of three ways: the draft is shown and the loop is in
  reviewing, the generation is reported as failed, or the run ends with \<open>TypeError\<close>.
\<close>

theorem commit_only_on_accept:
  "(list_ex is_git_commit (fst (loop_body_v1 lib s (r1, n) (line # rest))) \<longleftrightarrow>
      upper lib (strip line) = ''A'' \<and> CHR 0x00 \<notin> set (formatted_message r1))
   \<and> (list_ex is_git_commit (fst (loop_choice_v2 lib s (r2, n) (line # rest))) \<longleftrightarrow>
        upper lib (strip line) = ''A''
        \<and> (case formatted_message r2 of JStr message \<Rightarrow> CHR 0x00 \<notin> set message | _ \<Rightarrow> False))
   \<and> \<not> list_ex is_git_commit (fst (loop_top_v2 lib s (r2, n)))
   \<and> (upper lib (strip line) = ''A'' \<longrightarrow>
        loop_body_v1 lib s (r1, n) (line # rest) =
          (if CHR 0x00 \<in> set (formatted_message r1)
           then ([Print (formatted_message r1), Notice Options, Notice ErrorCreatingCommit],
                 Break CommitNotStarted)
           else ([Print (formatted_message r1), Notice Options,
                  Run [''git'', ''commit'', ''-m'', formatted_message r1]]
                 @ (if git_ok s (formatted_message r1) then [] else [Notice GitError])
                 @ [Notice CommitCreated],
                 Break (if git_ok s (formatted_message r1) then Committed else CommitFailed)))
        \<and> loop_choice_v2 lib s (r2, n) (line # rest) =
          (case formatted_message r2 of
             JStr message \<Rightarrow>
               if CHR 0x00 \<in> set message then ([], Break (Crashed ValueError))
               else ([Run [''git'', ''commit'', ''-m'', message],
                      Notice (if git_ok s message then CommitCreated else ErrorCreatingCommit)],
                     Break (if git_ok s message then Committed else CommitFailed))
           | _ \<Rightarrow> ([], Break (Crashed TypeError))))
   \<and> (upper lib (strip line) = ''C'' \<longrightarrow>
        loop_body_v1 lib s (r1, n) (line # rest) =
          ([Print (formatted_message r1), Notice Options, Notice CommitCancelled], Break Cancelled)
        \<and> loop_choice_v2 lib s (r2, n) (line # rest) = ([Notice CommitCancelled], Break Cancelled))
   \<and> (list_ex is_git_commit (fst (create_loop_v1 lib s (r1, n) stdin)) \<longleftrightarrow>
        snd (create_loop_v1 lib s (r1, n) stdin) = Committed
        \<or> snd (create_loop_v1 lib s (r1, n) stdin) = CommitFailed)
   \<and> (list_ex is_git_commit (fst (create_loop_v2 lib s (r2, n) stdin)) \<longleftrightarrow>
        snd (create_loop_v2 lib s (r2, n) stdin) = Committed
        \<or> snd (create_loop_v2 lib s (r2, n) stdin) = CommitFailed)
   \<and> (upper lib (strip line) = ''R'' \<longrightarrow>
        loop_body_v1 lib s (r1, n) (line # rest) =
          (case generate_commit_message_v1 n (api_key s) (diff s) (commit_type s) (scope s) (lang s) of
             (new_message, n1) \<Rightarrow>
               if new_message \<noteq> [] then
                 ([Print (formatted_message r1), Notice Options, Notice Regenerating],
                  Continue (r1\<lparr>formatted_message := new_message,
                               message_history := message_history r1 @ [new_message],
                               current_index := int (length (message_history r1))\<rparr>, n1, rest))
               else
                 ([Print (formatted_message r1), Notice Options, Notice Regenerating,
                   Notice FailedToRegenerate],
                  Continue (r1, n1, rest))))
   \<and> (upper lib (strip line) = ''E'' \<longrightarrow>
        loop_body_v1 lib s (r1, n) (line # rest) =
          (case read_edit_lines [] rest of
             None \<Rightarrow>
               ([Print (formatted_message r1), Notice Options, Print (formatted_message r1),
                 Notice EnterMessage], Break (Crashed EOFError))
           | Some (lines, rest') \<Rightarrow>
               ([Print (formatted_message r1), Notice Options, Print (formatted_message r1),
                 Notice EnterMessage],
                Continue (r1\<lparr>formatted_message := join ''\<newline>'' lines,
                             message_history := message_history r1 @ [join ''\<newline>'' lines],
                             current_index := int (length (message_history r1))\<rparr>, n, rest'))))
   \<and> (upper lib (strip line) \<noteq> ''A'' \<and> upper lib (strip line) \<noteq> ''R''
        \<and> upper lib (strip line) \<noteq> ''E'' \<and> upper lib (strip line) \<noteq> ''C'' \<longrightarrow>
        loop_body_v1 lib s (r1, n) (line # rest) =
          ([Print (formatted_message r1), Notice Options, Notice InvalidOption],
           Continue (r1, n, rest)))
   \<and> (upper lib (strip line) = ''R'' \<longrightarrow>
        loop_choice_v2 lib s (r2, n) (line # rest) = ([], Continue (r2, n, rest)))
   \<and> (\<not> truthy (get (fst (generate_commit_message_v2 lib n (api_key s) (diff s) (lang s)))
                    ''subject'')
        \<longrightarrow> loop_top_v2 lib s (r2, n) =
             ([Notice Generating, Notice FailedToGenerate], Break GenerationFailed))
   \<and> (generate_commit_message_v2 lib n (api_key s) (diff s) (lang s) = (d, n')
        \<and> getitem d ''type'' = Inr (JStr ty) \<and> getitem d ''scope'' = Inr (JStr sc)
        \<and> getitem d ''subject'' = Inr (JStr su) \<and> getitem d ''body'' = Inr (JStr bo)
        \<and> getitem d ''breaking'' = Inr (JStr br) \<and> getitem d ''footer'' = Inr (JStr fo)
        \<and> su \<noteq> [] \<and> (0 \<le> current_index r2 \<or> message_history r2 = [])
        \<longrightarrow>
        (let header = ty @ (if sc \<noteq> [] then ''('' @ sc @ '')'' else []) @ '': '' @ su;
             footer_text = (if br \<noteq> [] then ''\<newline>\<newline>BREAKING CHANGE: '' @ br else [])
                           @ (if fo \<noteq> [] then ''\<newline>\<newline>'' @ fo else []);
             message = header @ (if bo \<noteq> [] then ''\<newline>\<newline>'' @ bo else []) @ footer_text;
             history = (if current_index r2 < int (length (message_history r2)) - 1
                        then take (nat (current_index r2 + 1)) (message_history r2)
                        else message_history r2);
             shown = [Notice Generating, Print header]
                     @ (if bo \<noteq> [] then [Print (''\<newline>'' @ bo)] else [])
                     @ (if footer_text \<noteq> [] then [Print footer_text] else [])
                     @ [Notice (OptionsNav (0 < length history) False)]
         in loop_top_v2 lib s (r2, n) =
              (shown,
               Continue (r2\<lparr>message_history := history @ [d],
                            current_index := int (length history),
                            formatted_message := JStr message\<rparr>, n'))
          \<and> (upper lib (strip line) = ''A'' \<and> CHR 0x00 \<notin> set message \<longrightarrow>
               create_loop_v2 lib s (r2, n) (line # rest) =
                 (shown @ [Run [''git'', ''commit'', ''-m'', message],
                           Notice (if git_ok s message then CommitCreated
                                   else ErrorCreatingCommit)],
                  if git_ok s message then Committed else CommitFailed))))
   \<and> (0 \<le> current_index r2 \<or> message_history r2 = [] \<longrightarrow>
        (\<exists>r'. snd (loop_top_v2 lib s (r2, n)) =
            Continue (r', snd (generate_commit_message_v2 lib n (api_key s) (diff s) (lang s))))
        \<or> snd (loop_top_v2 lib s (r2, n)) = Break GenerationFailed
        \<or> snd (loop_top_v2 lib s (r2, n)) = Break (Crashed TypeError))
   \<and> (diff s \<noteq> [] \<longrightarrow>
        posts (snd (generate_commit_message_v1 n (api_key s) (diff s) (commit_type s) (scope s)
                      (lang s))) = Suc (posts n)
        \<and> posts (snd (generate_commit_message_v2 lib n (api_key s) (diff s) (lang s)))
            = Suc (posts n))"
proof -
  have c1: "list_ex is_git_commit (fst (loop_body_v1 lib s (r1, n) (line # rest)))
      \<longleftrightarrow> upper lib (strip line) = ''A'' \<and> CHR 0x00 \<notin> set (formatted_message r1)"
    using loop_body_v1_commits [of lib s "(r1, n)" line rest] by simp
  have c2: "list_ex is_git_commit (fst (loop_choice_v2 lib s (r2, n) (line # rest)))
      \<longleftrightarrow> upper lib (strip line) = ''A''
        \<and> (case formatted_message r2 of JStr message \<Rightarrow> CHR 0x00 \<notin> set message | _ \<Rightarrow> False)"
    using loop_choice_v2_flow [of lib s "(r2, n)" line rest, THEN conjunct1] by simp
  have c3: "\<not> list_ex is_git_commit (fst (loop_top_v2 lib s (r2, n)))"
    by (rule loop_top_v2_no_commit)
  note c4 = loop_body_v1_accept [of lib line s r1 n rest]
    loop_choice_v2_accept [of lib line s r2 n rest]
  note c5 = loop_body_v1_cancel [of lib line s r1 n rest]
    loop_choice_v2_cancel [of lib line s r2 n rest]
  note c6 = create_loop_v1_commits [of lib s "(r1, n)" stdin]
  note c7 = create_loop_v2_commits [of lib s "(r2, n)" stdin]
  note c8 = loop_body_v1_regenerate [of lib line s r1 n rest]
  note c9 = loop_body_v1_edit [of lib line s r1 n rest]
  note c10 = loop_body_v1_other [of lib line s r1 n rest]
  note c11 = loop_choice_v2_regenerate [of lib line s r2 n rest]
  note c12 = loop_top_v2_failed [of lib n s r2]
  note c13 = review_strings_v2 [of lib n s d n' ty sc su bo br fo r2 line rest]
  note c14 = loop_top_v2_outcome [of r2 lib s n]
  note c15 = generate_v1_one_post [of s n lib]
  show ?thesis
    apply (intro conjI)
    subgoal by (rule c1)
    subgoal by (rule c2)
    subgoal by (rule c3)
    subgoal by (intro impI conjI) (erule c4)+
    subgoal by (intro impI conjI) (erule c5)+
    subgoal by (rule c6)
    subgoal by (rule c7)
    subgoal by (intro impI) (erule c8)
    subgoal by (intro impI) (erule c9)
    subgoal by (intro impI, elim conjE) (rule c10; assumption)
    subgoal by (intro impI) (erule c11)
    subgoal by (intro impI) (erule c12)
    subgoal by (intro impI, elim conjE) (rule c13; assumption)
    subgoal by (intro impI) (erule c14)
    subgoal by (rule c15)
    done
qed

theorem commit_only_on_accept_witness:
  "upper stub_library (strip ''a'') = ''A''
   \<and> loop_body_v1 stub_library stub_session (stub_review_v1, stub_net_fail) [''a''] =
       ([Print ''fix(core): Fix crash'', Notice Options,
         Run [''git'', ''commit'', ''-m'', ''fix(core): Fix crash''], Notice CommitCreated],
        Break Committed)
   \<and> loop_choice_v2 stub_library stub_session (stub_review_v2, stub_net_fail) [''a''] =
       ([Run [''git'', ''commit'', ''-m'', ''fix(core): Fix crash''], Notice CommitCreated],
        Break Committed)
   \<and> upper stub_library (strip ''c'') = ''C''
   \<and> loop_body_v1 stub_library stub_session (stub_review_v1, stub_net_fail) [''c''] =
       ([Print ''fix(core): Fix crash'', Notice Options, Notice CommitCancelled], Break Cancelled)
   \<and> loop_choice_v2 stub_library stub_session (stub_review_v2, stub_net_fail) [''c''] =
       ([Notice CommitCancelled], Break Cancelled)
   \<and> upper stub_library (strip ''r'') = ''R''
   \<and> loop_body_v1 stub_library stub_session (stub_review_v1, stub_net_fail\<lparr>posts := 1\<rparr>)
        [''r'', ''a''] =
       ([Print ''fix(core): Fix crash'', Notice Options, Notice Regenerating,
         Notice FailedToRegenerate],
        Continue (stub_review_v1, stub_net_fail\<lparr>posts := 2\<rparr>, [''a'']))
   \<and> loop_choice_v2 stub_library stub_session (stub_review_v2, stub_net_fail\<lparr>posts := 1\<rparr>)
        [''r'', ''a''] =
       ([], Continue (stub_review_v2, stub_net_fail\<lparr>posts := 1\<rparr>, [''a'']))
   \<and> \<not> truthy (get (fst (generate_commit_message_v2 stub_library (stub_net_fail\<lparr>posts := 1\<rparr>)
                            (api_key stub_session) (diff stub_session) (lang stub_session)))
                  ''subject'')
   \<and> loop_top_v2 stub_library stub_session (stub_review_v2, stub_net_fail\<lparr>posts := 1\<rparr>) =
       ([Notice Generating, Notice FailedToGenerate], Break GenerationFailed)
   \<and> upper stub_library (strip ''e'') = ''E''
   \<and> loop_body_v1 stub_library stub_session (stub_review_v1, stub_net_fail)
        [''e'', ''Fix the crash'', [], []] =
       ([Print ''fix(core): Fix crash'', Notice Options, Print ''fix(core): Fix crash'',
         Notice EnterMessage],
        Continue (\<lparr>formatted_message = ''Fix the crash\<newline>'',
                    message_history = [''fix(core): Fix crash'', ''Fix the crash\<newline>''],
                    current_index = 1\<rparr>, stub_net_fail, []))
   \<and> upper stub_library (strip ''x'') \<noteq> ''A'' \<and> upper stub_library (strip ''x'') \<noteq> ''R''
   \<and> upper stub_library (strip ''x'') \<noteq> ''E'' \<and> upper stub_library (strip ''x'') \<noteq> ''C''
   \<and> loop_body_v1 stub_library stub_session (stub_review_v1, stub_net_fail) [''x''] =
       ([Print ''fix(core): Fix crash'', Notice Options, Notice InvalidOption],
        Continue (stub_review_v1, stub_net_fail, []))
   \<and> generate_commit_message_v2 stub_library stub_net_full (api_key stub_session)
        (diff stub_session) (lang stub_session) =
       (make_commit_data (JStr ''feat'') (JStr []) (JStr ''Add x'') (JStr ''Why.'')
          (JStr ''drop y'') (JStr ''Closes #1''), stub_net_full\<lparr>posts := 1\<rparr>)
   \<and> (0 \<le> current_index stub_review_start \<or> message_history stub_review_start = [])
   \<and> loop_top_v2 stub_library stub_session (stub_review_start, stub_net_full) =
       ([Notice Generating, Print ''feat: Add x'', Print ''\<newline>Why.'',
         Print ''\<newline>\<newline>BREAKING CHANGE: drop y\<newline>\<newline>Closes #1'',
         Notice (OptionsNav False False)],
        Continue (\<lparr>formatted_message =
                      JStr ''feat: Add x\<newline>\<newline>Why.\<newline>\<newline>BREAKING CHANGE: drop y\<newline>\<newline>Closes #1'',
                    message_history =
                      [make_commit_data (JStr ''feat'') (JStr []) (JStr ''Add x'') (JStr ''Why.'')
                         (JStr ''drop y'') (JStr ''Closes #1'')],
                    current_index = 0\<rparr>, stub_net_full\<lparr>posts := 1\<rparr>))
   \<and> create_loop_v2 stub_library stub_session (stub_review_start, stub_net_full) [''a''] =
       ([Notice Generating, Print ''feat: Add x'', Print ''\<newline>Why.'',
         Print ''\<newline>\<newline>BREAKING CHANGE: drop y\<newline>\<newline>Closes #1'',
         Notice (OptionsNav False False),
         Run [''git'', ''commit'', ''-m'',
              ''feat: Add x\<newline>\<newline>Why.\<newline>\<newline>BREAKING CHANGE: drop y\<newline>\<newline>Closes #1''],
         Notice CommitCreated],
        Committed)
   \<and> snd (loop_top_v2 stub_library stub_session (stub_review_start, stub_net_null)) =
       Break (Crashed TypeError)
   \<and> diff stub_session \<noteq> []
   \<and> posts (snd (generate_commit_message_v2 stub_library stub_net_fail
                    (api_key stub_session) (diff stub_session) (lang stub_session))) = 1"
proof -
  have hA: "upper stub_library (strip ''a'') = ''A''"
    and hC: "upper stub_library (strip ''c'') = ''C''"
    and hR: "upper stub_library (strip ''r'') = ''R''"
    and hE: "upper stub_library (strip ''e'') = ''E''"
    and hX: "upper stub_library (strip ''x'') \<noteq> ''A'' \<and> upper stub_library (strip ''x'') \<noteq> ''R''
             \<and> upper stub_library (strip ''x'') \<noteq> ''E'' \<and> upper stub_library (strip ''x'') \<noteq> ''C''"
    by code_simp+
  have hF: "\<not> truthy (get (fst (generate_commit_message_v2 stub_library (stub_net_fail\<lparr>posts := 1\<rparr>)
               (api_key stub_session) (diff stub_session) (lang stub_session))) ''subject'')"
    by (simp add: generate_commit_message_v2_def stub_session_def stub_net_fail_def post_def
        make_commit_data_def get_def)
  have hD: "diff stub_session \<noteq> []" by (simp add: stub_session_def)
  have g1: "generate_commit_message_v1 (stub_net_fail\<lparr>posts := 1\<rparr>) (api_key stub_session)
      (diff stub_session) (commit_type stub_session) (scope stub_session) (lang stub_session) =
      ([], stub_net_fail\<lparr>posts := 2\<rparr>)"
    by (simp add: generate_commit_message_v1_def stub_session_def stub_net_fail_def post_def)
  have rl: "read_edit_lines [] [''Fix the crash'', [], []] = Some ([''Fix the crash'', []], [])"
    by simp
  have pf: "parse_response stub_library stub_reply_full =
      Inr (make_commit_data (JStr ''feat'') (JStr []) (JStr ''Add x'') (JStr ''Why.'')
             (JStr ''drop y'') (JStr ''Closes #1''))"
    by code_simp
  have gf: "generate_commit_message_v2 stub_library stub_net_full (api_key stub_session)
        (diff stub_session) (lang stub_session) =
       (make_commit_data (JStr ''feat'') (JStr []) (JStr ''Add x'') (JStr ''Why.'')
          (JStr ''drop y'') (JStr ''Closes #1''), stub_net_full\<lparr>posts := 1\<rparr>)"
    by (simp add: generate_commit_message_v2_def post_def pf)
       (simp add: stub_session_def stub_net_full_def pf)
  have inv: "0 \<le> current_index stub_review_start \<or> message_history stub_review_start = []"
    by (simp add: stub_review_start_def)
  have hS: "generate_commit_message_v2 stub_library stub_net_full (api_key stub_session)
        (diff stub_session) (lang stub_session) =
       (make_commit_data (JStr ''feat'') (JStr []) (JStr ''Add x'') (JStr ''Why.'')
          (JStr ''drop y'') (JStr ''Closes #1''), stub_net_full\<lparr>posts := 1\<rparr>)
      \<and> getitem (make_commit_data (JStr ''feat'') (JStr []) (JStr ''Add x'') (JStr ''Why.'')
          (JStr ''drop y'') (JStr ''Closes #1'')) ''type'' = Inr (JStr ''feat'')
      \<and> getitem (make_commit_data (JStr ''feat'') (JStr []) (JStr ''Add x'') (JStr ''Why.'')
          (JStr ''drop y'') (JStr ''Closes #1'')) ''scope'' = Inr (JStr [])
      \<and> getitem (make_commit_data (JStr ''feat'') (JStr []) (JStr ''Add x'') (JStr ''Why.'')
          (JStr ''drop y'') (JStr ''Closes #1'')) ''subject'' = Inr (JStr ''Add x'')
      \<and> getitem (make_commit_data (JStr ''feat'') (JStr []) (JStr ''Add x'') (JStr ''Why.'')
          (JStr ''drop y'') (JStr ''Closes #1'')) ''body'' = Inr (JStr ''Why.'')
      \<and> getitem (make_commit_data (JStr ''feat'') (JStr []) (JStr ''Add x'') (JStr ''Why.'')
          (JStr ''drop y'') (JStr ''Closes #1'')) ''breaking'' = Inr (JStr ''drop y'')
      \<and> getitem (make_commit_data (JStr ''feat'') (JStr []) (JStr ''Add x'') (JStr ''Why.'')
          (JStr ''drop y'') (JStr ''Closes #1'')) ''footer'' = Inr (JStr ''Closes #1'')
      \<and> ''Add x'' \<noteq> []
      \<and> (0 \<le> current_index stub_review_start \<or> message_history stub_review_start = [])"
    using gf inv by (simp add: make_commit_data_getitem)
  have ok: "git_ok stub_session m" for m by (simp add: stub_session_def)
  note a = commit_only_on_accept [where lib = stub_library and s = stub_session
      and ?r1.0 = stub_review_v1 and ?r2.0 = stub_review_v2 and n = stub_net_fail
      and line = "''a''" and rest = "[]"]
  note c = commit_only_on_accept [where lib = stub_library and s = stub_session
      and ?r1.0 = stub_review_v1 and ?r2.0 = stub_review_v2 and n = stub_net_fail
      and line = "''c''" and rest = "[]"]
  note r = commit_only_on_accept [where lib = stub_library and s = stub_session
      and ?r1.0 = stub_review_v1 and ?r2.0 = stub_review_v2 and n = "stub_net_fail\<lparr>posts := 1\<rparr>"
      and line = "''r''" and rest = "[''a'']"]
  note e = commit_only_on_accept [where lib = stub_library and s = stub_session
      and ?r1.0 = stub_review_v1 and ?r2.0 = stub_review_v2 and n = stub_net_fail
      and line = "''e''" and rest = "[''Fix the crash'', [], []]"]
  note x = commit_only_on_accept [where lib = stub_library and s = stub_session
      and ?r1.0 = stub_review_v1 and ?r2.0 = stub_review_v2 and n = stub_net_fail
      and line = "''x''" and rest = "[]"]
  note f = commit_only_on_accept [where lib = stub_library and s = stub_session
      and ?r2.0 = stub_review_start and n = stub_net_full and line = "''a''" and rest = "[]"
      and d = "make_commit_data (JStr ''feat'') (JStr []) (JStr ''Add x'') (JStr ''Why.'')
                 (JStr ''drop y'') (JStr ''Closes #1'')"
      and n' = "stub_net_full\<lparr>posts := 1\<rparr>" and ty = "''feat''" and sc = "[]"
      and su = "''Add x''" and bo = "''Why.''" and br = "''drop y''" and fo = "''Closes #1''"]
  note t = commit_only_on_accept [where lib = stub_library and s = stub_session
      and n = stub_net_fail]
  have a1: "loop_body_v1 stub_library stub_session (stub_review_v1, stub_net_fail) [''a''] =
       ([Print ''fix(core): Fix crash'', Notice Options,
         Run [''git'', ''commit'', ''-m'', ''fix(core): Fix crash''], Notice CommitCreated],
        Break Committed)"
    using a [THEN conjunct2, THEN conjunct2, THEN conjunct2, THEN conjunct1, THEN mp, OF hA,
        THEN conjunct1]
    by (simp add: stub_review_v1_def stub_session_def)
  have a2: "loop_choice_v2 stub_library stub_session (stub_review_v2, stub_net_fail) [''a''] =
       ([Run [''git'', ''commit'', ''-m'', ''fix(core): Fix crash''], Notice CommitCreated],
        Break Committed)"
    using a [THEN conjunct2, THEN conjunct2, THEN conjunct2, THEN conjunct1, THEN mp, OF hA,
        THEN conjunct2]
    by (simp add: stub_review_v2_def stub_session_def)
  have c1: "loop_body_v1 stub_library stub_session (stub_review_v1, stub_net_fail) [''c''] =
       ([Print ''fix(core): Fix crash'', Notice Options, Notice CommitCancelled], Break Cancelled)"
    using c [THEN conjunct2, THEN conjunct2, THEN conjunct2, THEN conjunct2, THEN conjunct1,
        THEN mp, OF hC, THEN conjunct1]
    by (simp add: stub_review_v1_def)
  have c2: "loop_choice_v2 stub_library stub_session (stub_review_v2, stub_net_fail) [''c''] =
       ([Notice CommitCancelled], Break Cancelled)"
    using c [THEN conjunct2, THEN conjunct2, THEN conjunct2, THEN conjunct2, THEN conjunct1,
        THEN mp, OF hC, THEN conjunct2] .
  have r1: "loop_body_v1 stub_library stub_session (stub_review_v1, stub_net_fail\<lparr>posts := 1\<rparr>)
        [''r'', ''a''] =
       ([Print ''fix(core): Fix crash'', Notice Options, Notice Regenerating,
         Notice FailedToRegenerate],
        Continue (stub_review_v1, stub_net_fail\<lparr>posts := 2\<rparr>, [''a'']))"
    using r [THEN conjunct2, THEN conjunct2, THEN conjunct2, THEN conjunct2, THEN conjunct2,
        THEN conjunct2, THEN conjunct2, THEN conjunct1, THEN mp, OF hR, unfolded g1]
    by (simp add: stub_review_v1_def)
  have r2: "loop_choice_v2 stub_library stub_session (stub_review_v2, stub_net_fail\<lparr>posts := 1\<rparr>)
        [''r'', ''a''] =
       ([], Continue (stub_review_v2, stub_net_fail\<lparr>posts := 1\<rparr>, [''a'']))"
    using r [THEN conjunct2, THEN conjunct2, THEN conjunct2, THEN conjunct2, THEN conjunct2,
        THEN conjunct2, THEN conjunct2, THEN conjunct2, THEN conjunct2, THEN conjunct2,
        THEN conjunct1, THEN mp, OF hR] .
  have r3: "loop_top_v2 stub_library stub_session (stub_review_v2, stub_net_fail\<lparr>posts := 1\<rparr>) =
       ([Notice Generating, Notice FailedToGenerate], Break GenerationFailed)"
    using r [THEN conjunct2, THEN conjunct2, THEN conjunct2, THEN conjunct2, THEN conjunct2,
        THEN conjunct2, THEN conjunct2, THEN conjunct2, THEN conjunct2, THEN conjunct2,
        THEN conjunct2, THEN conjunct1, THEN mp, OF hF] .
  have e1: "loop_body_v1 stub_library stub_session (stub_review_v1, stub_net_fail)
        [''e'', ''Fix the crash'', [], []] =
       ([Print ''fix(core): Fix crash'', Notice Options, Print ''fix(core): Fix crash'',
         Notice EnterMessage],
        Continue (\<lparr>formatted_message = ''Fix the crash\<newline>'',
                    message_history = [''fix(core): Fix crash'', ''Fix the crash\<newline>''],
                    current_index = 1\<rparr>, stub_net_fail, []))"
    using e [THEN conjunct2, THEN conjunct2, THEN conjunct2, THEN conjunct2, THEN conjunct2,
        THEN conjunct2, THEN conjunct2, THEN conjunct2, THEN conjunct1, THEN mp, OF hE,
        unfolded rl]
    by (simp add: stub_review_v1_def)
  have x1: "loop_body_v1 stub_library stub_session (stub_review_v1, stub_net_fail) [''x''] =
       ([Print ''fix(core): Fix crash'', Notice Options, Notice InvalidOption],
        Continue (stub_review_v1, stub_net_fail, []))"
    using x [THEN conjunct2, THEN conjunct2, THEN conjunct2, THEN conjunct2, THEN conjunct2,
        THEN conjunct2, THEN conjunct2, THEN conjunct2, THEN conjunct2, THEN conjunct1,
        THEN mp, OF hX]
    by (simp add: stub_review_v1_def)
  note f13 = f [THEN conjunct2, THEN conjunct2, THEN conjunct2, THEN conjunct2, THEN conjunct2,
        THEN conjunct2, THEN conjunct2, THEN conjunct2, THEN conjunct2, THEN conjunct2,
        THEN conjunct2, THEN conjunct2, THEN conjunct1, THEN mp, OF hS, unfolded Let_def]
  have f1: "loop_top_v2 stub_library stub_session (stub_review_start, stub_net_full) =
       ([Notice Generating, Print ''feat: Add x'', Print ''\<newline>Why.'',
         Print ''\<newline>\<newline>BREAKING CHANGE: drop y\<newline>\<newline>Closes #1'',
         Notice (OptionsNav False False)],
        Continue (\<lparr>formatted_message =
                      JStr ''feat: Add x\<newline>\<newline>Why.\<newline>\<newline>BREAKING CHANGE: drop y\<newline>\<newline>Closes #1'',
                    message_history =
                      [make_commit_data (JStr ''feat'') (JStr []) (JStr ''Add x'') (JStr ''Why.'')
                         (JStr ''drop y'') (JStr ''Closes #1'')],
                    current_index = 0\<rparr>, stub_net_full\<lparr>posts := 1\<rparr>))"
    using f13 [THEN conjunct1] by (simp add: stub_review_start_def)
  have f2: "create_loop_v2 stub_library stub_session (stub_review_start, stub_net_full) [''a''] =
       ([Notice Generating, Print ''feat: Add x'', Print ''\<newline>Why.'',
         Print ''\<newline>\<newline>BREAKING CHANGE: drop y\<newline>\<newline>Closes #1'',
         Notice (OptionsNav False False),
         Run [''git'', ''commit'', ''-m'',
              ''feat: Add x\<newline>\<newline>Why.\<newline>\<newline>BREAKING CHANGE: drop y\<newline>\<newline>Closes #1''],
         Notice CommitCreated],
        Committed)"
    using f13 [THEN conjunct2] hA by (simp add: stub_review_start_def ok)
  have pn: "parse_response stub_library stub_reply_null =
      Inr (make_commit_data JNull (JStr ''core'') (JStr ''Fix crash'') (JStr []) (JStr [])
             (JStr []))"
    by code_simp
  have an: "assemble stub_library
      (make_commit_data JNull (JStr ''core'') (JStr ''Fix crash'') (JStr []) (JStr []) (JStr [])) =
      ([], Inl TypeError)"
    by code_simp
  have gn: "generate_commit_message_v2 stub_library stub_net_null (api_key stub_session)
        (diff stub_session) (lang stub_session) =
       (make_commit_data JNull (JStr ''core'') (JStr ''Fix crash'') (JStr []) (JStr []) (JStr []),
        stub_net_null\<lparr>posts := 1\<rparr>)"
    by (simp add: generate_commit_message_v2_def post_def pn)
       (simp add: stub_session_def stub_net_null_def pn)
  have n1: "snd (loop_top_v2 stub_library stub_session (stub_review_start, stub_net_null)) =
       Break (Crashed TypeError)"
    unfolding loop_top_v2_def Let_def fst_conv snd_conv gn prod.case
    by (simp add: stub_review_start_def an) (simp add: make_commit_data_def get_def)
  have t2: "posts (snd (generate_commit_message_v2 stub_library stub_net_fail
                    (api_key stub_session) (diff stub_session) (lang stub_session))) = 1"
    using t [THEN conjunct2, THEN conjunct2, THEN conjunct2, THEN conjunct2, THEN conjunct2,
        THEN conjunct2, THEN conjunct2, THEN conjunct2, THEN conjunct2, THEN conjunct2,
        THEN conjunct2, THEN conjunct2, THEN conjunct2, THEN conjunct2, THEN mp, OF hD,
        THEN conjunct2]
    by (simp add: stub_net_fail_def)
  show ?thesis
    using hA a1 a2 hC c1 c2 hR r1 r2 hF r3 hE e1 hX x1 gf inv f1 f2 n1 hD t2
    by (intro conjI; blast)
qed

end
